theory Spec2Isabelle
  imports Main "HOL-Library.Word"
begin

section \<open>JavaScript values, exceptions and machine integers\<close>

text \<open>
  The binding receives JavaScript values and answers with a JavaScript value or a thrown
  JavaScript exception. Machine integers are words: \<open>+\<close> and \<open>*\<close> wrap around, \<open>sint\<close>
  reads a signed and \<open>unat\<close>/\<open>uint\<close> an unsigned value.
\<close>

type_synonym int32 = "32 word"
type_synonym uint32 = "32 word"
type_synonym int64 = "64 word"
type_synonym uint64 = "64 word"

datatype js_error = Error string | TypeError string

text \<open>A C++ exception (\<open>std::runtime_error\<close>), with its \<open>what()\<close>.\<close>

datatype exn = runtime_error string

section \<open>The wire format, as the protobuf reader yields it\<close>

text \<open>
  Modelled from the spec: the protobuf reader (protozero) and the tile class
  (\<open>mapnik::vector_tile_impl::merc_tile\<close>) are not among the sources. A message is the
  sequence of its fields in wire order, \<open>Tile{layers}\<close>, \<open>Layer{version, name, features, ...}\<close>,
  \<open>Feature{id, tags, type, geometry: packed uint32}\<close>; a field the code skips is \<open>OTHER\<close>. The constructors are the tags of
  \<open>Layer_Encoding\<close> and \<open>Feature_Encoding\<close>.
\<close>

datatype Feature_Encoding =
    Feature_ID uint64
  | Feature_TYPE int32
  | Feature_GEOMETRY "uint32 list"
  | Feature_OTHER

type_synonym feature_msg = "Feature_Encoding list"

datatype Layer_Encoding =
    Layer_NAME string
  | Layer_FEATURES feature_msg
  | Layer_VERSION uint32
  | Layer_OTHER

type_synonym layer_msg = "Layer_Encoding list"

text \<open>
  Modelled from the spec: the tile owns its encoded buffer (here the layer messages of its
  \<open>LAYERS\<close> fields, in order), its address, \<open>tile_size\<close> (unsigned 32 bit), \<open>buffer_size\<close>
  (signed 32 bit) and the derived layer-name sets. The address fields are unsigned 64 bit.
\<close>

record merc_tile =
  tile_x :: uint64
  tile_y :: uint64
  tile_z :: uint64
  tile_size :: uint32
  buffer_size :: int32
  buffer :: "layer_msg list"
  layers :: "string list"
  painted_layers :: "string set"
  empty_layers :: "string set"

text \<open>\<open>merc_tile(x, y, z, tile_size, buffer_size)\<close>: a tile with no data.\<close>

definition make_merc_tile :: "uint64 \<Rightarrow> uint64 \<Rightarrow> uint64 \<Rightarrow> uint32 \<Rightarrow> int32 \<Rightarrow> merc_tile" where
  "make_merc_tile x y z ts bs =
     \<lparr>tile_x = x, tile_y = y, tile_z = z, tile_size = ts, buffer_size = bs,
      buffer = [], layers = [], painted_layers = {}, empty_layers = {}\<rparr>"

text \<open>
  Modelled from the spec: the tile is painted when it has a painted layer, and it has a
  layer when the name is among its layer names.
\<close>

definition is_painted :: "merc_tile \<Rightarrow> bool" where
  "is_painted t = (painted_layers t \<noteq> {})"

definition has_layer :: "merc_tile \<Rightarrow> string \<Rightarrow> bool" where
  "has_layer t name = (name \<in> set (layers t))"

text \<open>
  A JavaScript value. \<open>JSNumber n\<close> is the number with the integral value \<open>n\<close>
  (numbers that are not integral stay outside the model); \<open>JSVectorTile\<close> is a wrapped
  \<open>VectorTile\<close> object and \<open>JSExternal\<close> the external handle the binding passes to its
  own constructor.
\<close>

datatype js_value =
    JSUndefined
  | JSNull
  | JSBoolean bool
  | JSNumber int
  | JSString string
  | JSObject "(string \<times> js_value) list"
  | JSArray "js_value list"
  | JSFunction
  | JSExternal merc_tile
  | JSVectorTile merc_tile

fun IsNumber :: "js_value \<Rightarrow> bool" where
  "IsNumber (JSNumber n) = True"
| "IsNumber v = False"

fun IsExternal :: "js_value \<Rightarrow> bool" where
  "IsExternal (JSExternal t) = True"
| "IsExternal v = False"

fun IsObject :: "js_value \<Rightarrow> bool" where
  "IsObject (JSObject ps) = True"
| "IsObject (JSArray vs) = True"
| "IsObject JSFunction = True"
| "IsObject (JSVectorTile t) = True"
| "IsObject v = False"

text \<open>
  \<open>Has\<close> and \<open>Get\<close> look a key up among the properties of an object. They see
  inherited properties as well as own ones: the list of a \<open>JSObject\<close> holds every property
  that is visible on the object, the nearest first. Arrays, functions and wrapped
  tiles are taken to have no property of the names that are looked up here.
\<close>

fun properties :: "js_value \<Rightarrow> (string \<times> js_value) list" where
  "properties (JSObject ps) = ps"
| "properties v = []"

definition Has :: "js_value \<Rightarrow> string \<Rightarrow> bool" where
  "Has obj key = (map_of (properties obj) key \<noteq> None)"

definition Get :: "js_value \<Rightarrow> string \<Rightarrow> js_value" where
  "Get obj key = (case map_of (properties obj) key of None \<Rightarrow> JSUndefined | Some v \<Rightarrow> v)"

text \<open>
  \<open>Int32Value\<close> keeps the bottom 32 bits of the number (ECMAScript ToInt32);
  \<open>Int64Value\<close> saturates at the ends of the signed 64-bit range. Both are 0 on a value
  that is not a number.
\<close>

fun Int32Value :: "js_value \<Rightarrow> int32" where
  "Int32Value (JSNumber n) = word_of_int n"
| "Int32Value v = 0"

fun Int64Value :: "js_value \<Rightarrow> int64" where
  "Int64Value (JSNumber n) =
     (if n < - (2 ^ 63) then word_of_int (- (2 ^ 63))
      else if 2 ^ 63 \<le> n then word_of_int (2 ^ 63 - 1)
      else word_of_int n)"
| "Int64Value v = 0"

section \<open>The constructor\<close>

text \<open>
  \<open>std::int64_t max_at_zoom = pow(2,z)\<close> for \<open>z \<ge> 0\<close>. The power is computed in double
  precision and is exact; converting it to \<open>std::int64_t\<close> is defined up to \<open>z = 62\<close>.
  Beyond that the value is not representable and the conversion is the one of x86-64
  (\<open>cvttsd2si\<close>), which yields the most negative 64-bit integer.
\<close>

definition max_at_zoom :: "int64 \<Rightarrow> int64" where
  "max_at_zoom z =
     (if sint z \<le> 62 then word_of_int (2 ^ nat (sint z)) else word_of_int (- (2 ^ 63)))"

text \<open>
  The \<open>tile_size\<close> option: \<open>Inl\<close> is the exception thrown, \<open>Inr\<close> the value of the local
  \<open>tile_size\<close> after the block (initially 4096).
\<close>

definition option_tile_size :: "js_value \<Rightarrow> js_error + uint32" where
  "option_tile_size options =
     (if Has options ''tile_size'' then
        (let opt = Get options ''tile_size'' in
         if \<not> IsNumber opt then Inl (TypeError ''optional arg 'tile_size' must be a number'')
         else
           (let tile_size_tmp = Int32Value opt in
            if sint tile_size_tmp \<le> 0
            then Inl (TypeError ''optional arg 'tile_size' must be greater then zero'')
            else Inr tile_size_tmp))
      else Inr 4096)"

text \<open>The \<open>buffer_size\<close> option (initially 128).\<close>

definition option_buffer_size :: "js_value \<Rightarrow> js_error + int32" where
  "option_buffer_size options =
     (if Has options ''buffer_size'' then
        (let opt = Get options ''buffer_size'' in
         if \<not> IsNumber opt then Inl (TypeError ''optional arg 'buffer_size' must be a number'')
         else Inr (Int32Value opt))
      else Inr 128)"

text \<open>
  The two options of the fourth argument, when there is one. The product
  \<open>2 * buffer_size\<close> of the final check is a 32-bit signed product, converted to double
  and added to the tile size.
\<close>

definition constructor_options :: "js_value list \<Rightarrow> js_error + (uint32 \<times> int32)" where
  "constructor_options info =
     (if length info > 3 then
        (if \<not> IsObject (info ! 3)
         then Inl (TypeError ''optional fourth argument must be an options object'')
         else
           (case option_tile_size (info ! 3) of
              Inl e \<Rightarrow> Inl e
            | Inr ts \<Rightarrow>
                (case option_buffer_size (info ! 3) of
                   Inl e \<Rightarrow> Inl e
                 | Inr bs \<Rightarrow> Inr (ts, bs))))
      else Inr (4096, 128))"

text \<open>
  \<open>new VectorTile(...)\<close>: \<open>Inl\<close> is the exception thrown, with no tile created (\<open>tile_\<close> is
  assigned by the last statement only); \<open>Inr\<close> is the tile the object holds. With a single
  external argument the object takes the tile of the handle (under \<open>IsExternal\<close> the
  other case of the \<open>case\<close> does not occur).
\<close>

definition VectorTile_new :: "js_value list \<Rightarrow> js_error + merc_tile" where
  "VectorTile_new info =
     (if length info = 1 \<and> IsExternal (info ! 0) then
        (case info ! 0 of JSExternal t \<Rightarrow> Inr t | _ \<Rightarrow> Inl (Error ''''))
      else if length info < 3 then Inl (Error ''please provide a z, x, y'')
      else if \<not> (IsNumber (info ! 0) \<and> IsNumber (info ! 1) \<and> IsNumber (info ! 2))
      then Inl (TypeError ''required parameters (z, x, and y) must be a integers'')
      else
        (let z = Int64Value (info ! 0); x = Int64Value (info ! 1); y = Int64Value (info ! 2) in
         if sint z < 0 \<or> sint x < 0 \<or> sint y < 0
         then Inl (TypeError
                ''required parameters (z, x, and y) must be greater then or equal to zero'')
         else if sint (max_at_zoom z) \<le> sint x
         then Inl (TypeError
                ''required parameter x is out of range of possible values based on z value'')
         else if sint (max_at_zoom z) \<le> sint y
         then Inl (TypeError
                ''required parameter y is out of range of possible values based on z value'')
         else
           (case constructor_options info of
              Inl e \<Rightarrow> Inl e
            | Inr (ts, bs) \<Rightarrow>
                if int (unat ts) + sint (2 * bs) \<le> 0
                then Inl (Error ''too large of a negative buffer for tilesize'')
                else Inr (make_merc_tile x y z ts bs))))"

section \<open>Property setters\<close>

text \<open>
  A setter takes the tile the object holds and the assigned value; it returns the tile
  afterwards and the exception thrown, if any. \<open>int val\<close> is signed 32 bit; the tile's
  \<open>x\<close>, \<open>y\<close> and \<open>z\<close> take it as unsigned 64 bit, \<open>tile_size\<close> as unsigned 32 bit.
\<close>

definition set_tile_x :: "merc_tile \<Rightarrow> js_value \<Rightarrow> merc_tile \<times> js_error option" where
  "set_tile_x t v =
     (if \<not> IsNumber v then (t, Some (Error ''Must provide a number''))
      else
        (let val = Int32Value v in
         if sint val < 0
         then (t, Some (Error ''tile x coordinate must be greater then or equal to zero''))
         else (t\<lparr>tile_x := scast val\<rparr>, None)))"

definition set_tile_y :: "merc_tile \<Rightarrow> js_value \<Rightarrow> merc_tile \<times> js_error option" where
  "set_tile_y t v =
     (if \<not> IsNumber v then (t, Some (Error ''Must provide a number''))
      else
        (let val = Int32Value v in
         if sint val < 0
         then (t, Some (Error ''tile y coordinate must be greater then or equal to zero''))
         else (t\<lparr>tile_y := scast val\<rparr>, None)))"

definition set_tile_z :: "merc_tile \<Rightarrow> js_value \<Rightarrow> merc_tile \<times> js_error option" where
  "set_tile_z t v =
     (if \<not> IsNumber v then (t, Some (Error ''Must provide a number''))
      else
        (let val = Int32Value v in
         if sint val < 0
         then (t, Some (Error ''tile z coordinate must be greater then or equal to zero''))
         else (t\<lparr>tile_z := scast val\<rparr>, None)))"

definition set_tile_size :: "merc_tile \<Rightarrow> js_value \<Rightarrow> merc_tile \<times> js_error option" where
  "set_tile_size t v =
     (if \<not> IsNumber v then (t, Some (Error ''Must provide a number''))
      else
        (let val = Int32Value v in
         if sint val \<le> 0
         then (t, Some (Error ''tile size must be greater then zero''))
         else (t\<lparr>tile_size := val\<rparr>, None)))"

text \<open>
  The check of \<open>set_buffer_size\<close> is all in 32-bit signed arithmetic:
  \<open>static_cast<int>(tile_size) + (2 * val) <= 0\<close>.
\<close>

definition set_buffer_size :: "merc_tile \<Rightarrow> js_value \<Rightarrow> merc_tile \<times> js_error option" where
  "set_buffer_size t v =
     (if \<not> IsNumber v then (t, Some (Error ''Must provide a number''))
      else
        (let val = Int32Value v in
         if sint (tile_size t + 2 * val) \<le> 0
         then (t, Some (Error ''too large of a negative buffer for tilesize''))
         else (t\<lparr>buffer_size := val\<rparr>, None)))"

text \<open>The quantity \<open>tile_size + 2 * buffer_size\<close> of a tile, as an integer.\<close>

definition effective_size :: "merc_tile \<Rightarrow> int" where
  "effective_size t = int (unat (tile_size t)) + 2 * sint (buffer_size t)"

section \<open>Compositing and layer extraction\<close>

text \<open>
  A method takes the tile the object holds and its arguments; it returns the tile
  afterwards and either the exception thrown or the value returned. The three methods
  below return at their first statement: the rest of each body is commented out.
\<close>

definition VectorTile_compositeSync ::
  "merc_tile \<Rightarrow> js_value list \<Rightarrow> merc_tile \<times> (js_error + js_value)" where
  "VectorTile_compositeSync t info = (t, Inr JSUndefined)"

definition VectorTile_composite ::
  "merc_tile \<Rightarrow> js_value list \<Rightarrow> merc_tile \<times> (js_error + js_value)" where
  "VectorTile_composite t info = (t, Inr JSUndefined)"

definition VectorTile_layer ::
  "merc_tile \<Rightarrow> js_value list \<Rightarrow> merc_tile \<times> (js_error + js_value)" where
  "VectorTile_layer t info = (t, Inr JSUndefined)"

text \<open>\<open>names()\<close>, \<open>painted()\<close>: the getters a caller reads the outcome with.\<close>

definition VectorTile_names :: "merc_tile \<Rightarrow> js_value" where
  "VectorTile_names t = JSArray (map JSString (layers t))"

definition VectorTile_painted :: "merc_tile \<Rightarrow> js_value" where
  "VectorTile_painted t = JSBoolean (is_painted t)"

section \<open>Geometries, features and the collaborators\<close>

text \<open>
  The geometry variant, over the coordinate type \<open>'c\<close> (the template parameter \<open>T\<close>),
  and a feature: its id (signed 64 bit), its attributes and its geometry.
\<close>

datatype 'c geometry =
    geometry_empty
  | point "'c \<times> 'c"
  | line_string "('c \<times> 'c) list"
  | polygon "('c \<times> 'c) list list"
  | multi_point "('c \<times> 'c) list"
  | multi_line_string "('c \<times> 'c) list list"
  | multi_polygon "('c \<times> 'c) list list list"
  | geometry_collection "'c geometry list"

record ('c, 'v) feature_impl =
  get_id :: int64
  get_data :: "(string \<times> 'v) list"
  get_geometry :: "'c geometry"

text \<open>
  The functions of mapnik and of the vector-tile library that the checks call are not
  among the sources; they are parameters. Except where it is said, they are taken to
  return without an exception:
  \<^item> \<open>is_simple\<close>, and \<open>is_valid\<close> with the message it sets;
  \<^item> \<open>to_geojson\<close>, \<open>None\<close> when it returns false;
  \<^item> \<open>decode_geometry\<close> on the packed geometry, the geometry type and the layer
    version, which may throw;
  \<^item> \<open>reproject_copy\<close> from mercator to WGS84;
  \<^item> the datasource over a layer message and the tile address: its name and the
    features its featureset yields for the all-covering query (\<open>None\<close> when there is no
    valid featureset). Building the datasource and reading its featureset may throw;
    the features read before are then lost with the exception, so one result stands
    for the whole reading.
\<close>

record ('c, 'v) mapnik =
  is_simple :: "'c geometry \<Rightarrow> bool"
  is_valid :: "'c geometry \<Rightarrow> bool \<times> string"
  to_geojson :: "('c, 'v) feature_impl \<Rightarrow> string option"
  decode_geometry :: "uint32 list \<Rightarrow> int32 \<Rightarrow> uint32 \<Rightarrow> exn + 'c geometry"
  reproject_copy :: "'c geometry \<Rightarrow> 'c geometry"
  ds_get_name :: "layer_msg \<Rightarrow> string"
  ds_features ::
    "layer_msg \<Rightarrow> uint32 \<Rightarrow> uint32 \<Rightarrow> uint32 \<Rightarrow> exn + ('c, 'v) feature_impl list option"

text \<open>
  The two error records. \<open>not_valid_feature\<close> has the fields of \<open>not_simple_feature\<close>
  and two more, so it is written as its extension.
\<close>

record not_simple_feature =
  layer :: string
  feature_id :: int64

record not_valid_feature = not_simple_feature +
  message :: string
  geojson :: string

section \<open>The simplicity check\<close>

text \<open>The \<open>while\<close> loop of \<open>layer_not_simple\<close> over the featureset.\<close>

fun not_simple_loop ::
  "('c, 'v) mapnik \<Rightarrow> string \<Rightarrow> ('c, 'v) feature_impl list \<Rightarrow> not_simple_feature list
     \<Rightarrow> not_simple_feature list" where
  "not_simple_loop env name [] errors = errors"
| "not_simple_loop env name (feature # fs) errors =
     (if \<not> is_simple env (get_geometry feature)
      then not_simple_loop env name fs
             (errors @ [\<lparr>layer = name, feature_id = get_id feature\<rparr>])
      else not_simple_loop env name fs errors)"

text \<open>\<open>Inl\<close> is the exception that leaves \<open>layer_not_simple\<close>.\<close>

definition layer_not_simple ::
  "('c, 'v) mapnik \<Rightarrow> layer_msg \<Rightarrow> uint32 \<Rightarrow> uint32 \<Rightarrow> uint32 \<Rightarrow> not_simple_feature list
     \<Rightarrow> exn + not_simple_feature list" where
  "layer_not_simple env layer_msg x y z errors =
     (case ds_features env layer_msg x y z of
        Inl e \<Rightarrow> Inl e
      | Inr None \<Rightarrow> Inr errors
      | Inr (Some fs) \<Rightarrow> Inr (not_simple_loop env (ds_get_name env layer_msg) fs errors))"

text \<open>
  The loop of \<open>vector_tile_not_simple\<close> over the layer messages; the address goes from
  unsigned 64 bit to the \<open>unsigned\<close> parameters of \<open>layer_not_simple\<close>.
\<close>

fun not_simple_layers ::
  "('c, 'v) mapnik \<Rightarrow> merc_tile \<Rightarrow> layer_msg list \<Rightarrow> not_simple_feature list
     \<Rightarrow> exn + not_simple_feature list" where
  "not_simple_layers env tile [] errors = Inr errors"
| "not_simple_layers env tile (layer_msg # ls) errors =
     (case layer_not_simple env layer_msg
             (ucast (tile_x tile)) (ucast (tile_y tile)) (ucast (tile_z tile)) errors of
        Inl e \<Rightarrow> Inl e
      | Inr errors' \<Rightarrow> not_simple_layers env tile ls errors')"

definition vector_tile_not_simple ::
  "('c, 'v) mapnik \<Rightarrow> merc_tile \<Rightarrow> not_simple_feature list
     \<Rightarrow> exn + not_simple_feature list" where
  "vector_tile_not_simple env tile errors = not_simple_layers env tile (buffer tile) errors"

text \<open>
  \<open>Napi::Number::New\<close> on a 64-bit id. The number is a double: the id is converted to
  the nearest value with a 53-bit significand, a tie going to the even one. With \<open>m\<close>
  the magnitude, \<open>e\<close> is the number of low bits that do not fit (0 up to \<open>2^53\<close>: the
  subtraction on \<open>nat\<close> stops at 0), \<open>q\<close> the significand and \<open>r\<close> what is cut off.
\<close>

fun bit_length :: "nat \<Rightarrow> nat" where
  "bit_length n = (if n = 0 then 0 else Suc (bit_length (n div 2)))"

declare bit_length.simps [simp del]

definition double_of_int :: "int \<Rightarrow> int" where
  "double_of_int n =
     (let m = nat \<bar>n\<bar>;
          e = bit_length m - 53;
          q = m div 2 ^ e;
          r = m mod 2 ^ e
      in if 2 ^ e < 2 * r \<or> (2 * r = 2 ^ e \<and> odd q)
         then sgn n * int ((q + 1) * 2 ^ e)
         else sgn n * int (q * 2 ^ e))"

definition Number_New :: "int64 \<Rightarrow> js_value" where
  "Number_New i = JSNumber (double_of_int (sint i))"

definition make_not_simple_array :: "not_simple_feature list \<Rightarrow> js_value" where
  "make_not_simple_array errors =
     JSArray (map (\<lambda>error. JSObject [(''layer'', JSString (layer error)),
                                       (''featureId'', Number_New (feature_id error))]) errors)"

text \<open>
  \<open>reportGeometrySimplicitySync\<close>: the check inside \<open>try\<close>; an exception caught becomes
  a JavaScript \<open>Error\<close> with its message.
\<close>

definition reportGeometrySimplicitySync ::
  "('c, 'v) mapnik \<Rightarrow> merc_tile \<Rightarrow> js_value list \<Rightarrow> js_error + js_value" where
  "reportGeometrySimplicitySync env tile info =
     (case vector_tile_not_simple env tile [] of
        Inl (runtime_error what) \<Rightarrow> Inl (Error what)
      | Inr errors \<Rightarrow> Inr (make_not_simple_array errors))"

section \<open>The validity check\<close>

text \<open>
  Every operator of \<open>visitor_geom_valid\<close> builds its error record by the same statements:
  a copy of the feature with the geometry at hand, its GeoJSON inside a feature
  collection (the string \<open>result\<close>), and the record appended to \<open>errors\<close>. \<open>Inl\<close> is
  the exception thrown.
\<close>

definition feature_collection :: "string \<Rightarrow> string" where
  \<open>feature_collection feature_str =
     ''{"type":"FeatureCollection","features":['' @ feature_str @ '']}''\<close>

definition emplace_not_valid ::
  "('c, 'v) mapnik \<Rightarrow> not_valid_feature list \<Rightarrow> ('c, 'v) feature_impl \<Rightarrow> string \<Rightarrow> string
     \<Rightarrow> 'c geometry \<Rightarrow> exn + not_valid_feature list" where
  "emplace_not_valid env errors feature layer_name msg geom =
     (let feature_new = feature\<lparr>get_geometry := geom\<rparr> in
      case to_geojson env feature_new of
        None \<Rightarrow> Inl (runtime_error ''Failed to generate GeoJSON geometry'')
      | Some feature_str \<Rightarrow>
          Inr (errors @
               [\<lparr>layer = layer_name, feature_id = get_id feature, message = msg,
                 geojson = feature_collection feature_str\<rparr>]))"

text \<open>One geometry tested as a whole: \<open>if (!is_valid(geom, message)) { ... }\<close>.\<close>

definition test_valid ::
  "('c, 'v) mapnik \<Rightarrow> not_valid_feature list \<Rightarrow> ('c, 'v) feature_impl \<Rightarrow> string
     \<Rightarrow> 'c geometry \<Rightarrow> exn + not_valid_feature list" where
  "test_valid env errors feature layer_name geom =
     (if \<not> fst (is_valid env geom)
      then emplace_not_valid env errors feature layer_name (snd (is_valid env geom)) geom
      else Inr errors)"

text \<open>The \<open>for\<close> loops over the parts of a multi-geometry, each part tested by itself.\<close>

fun test_parts ::
  "('c, 'v) mapnik \<Rightarrow> not_valid_feature list \<Rightarrow> ('c, 'v) feature_impl \<Rightarrow> string
     \<Rightarrow> 'c geometry list \<Rightarrow> exn + not_valid_feature list" where
  "test_parts env errors feature layer_name [] = Inr errors"
| "test_parts env errors feature layer_name (part # parts) =
     (case test_valid env errors feature layer_name part of
        Inl e \<Rightarrow> Inl e
      | Inr errors' \<Rightarrow> test_parts env errors' feature layer_name parts)"

fun visitor_geom_valid ::
  "('c, 'v) mapnik \<Rightarrow> ('c, 'v) feature_impl \<Rightarrow> string \<Rightarrow> bool \<Rightarrow> 'c geometry
     \<Rightarrow> not_valid_feature list \<Rightarrow> exn + not_valid_feature list"
and visitor_geom_valid_collection ::
  "('c, 'v) mapnik \<Rightarrow> ('c, 'v) feature_impl \<Rightarrow> string \<Rightarrow> bool \<Rightarrow> 'c geometry list
     \<Rightarrow> not_valid_feature list \<Rightarrow> exn + not_valid_feature list" where
  "visitor_geom_valid env feature layer_name split_multi_features geometry_empty errors =
     Inr errors"
| "visitor_geom_valid env feature layer_name split_multi_features (point p) errors =
     test_valid env errors feature layer_name (point p)"
| "visitor_geom_valid env feature layer_name split_multi_features (multi_point ps) errors =
     test_valid env errors feature layer_name (multi_point ps)"
| "visitor_geom_valid env feature layer_name split_multi_features (line_string ls) errors =
     test_valid env errors feature layer_name (line_string ls)"
| "visitor_geom_valid env feature layer_name split_multi_features (multi_line_string geom) errors =
     (if split_multi_features
      then test_parts env errors feature layer_name (map line_string geom)
      else test_valid env errors feature layer_name (multi_line_string geom))"
| "visitor_geom_valid env feature layer_name split_multi_features (polygon rings) errors =
     test_valid env errors feature layer_name (polygon rings)"
| "visitor_geom_valid env feature layer_name split_multi_features (multi_polygon geom) errors =
     (if split_multi_features
      then test_parts env errors feature layer_name (map polygon geom)
      else test_valid env errors feature layer_name (multi_polygon geom))"
| "visitor_geom_valid env feature layer_name split_multi_features (geometry_collection geom) errors =
     visitor_geom_valid_collection env feature layer_name split_multi_features geom errors"
| "visitor_geom_valid_collection env feature layer_name split_multi_features [] errors =
     Inr errors"
| "visitor_geom_valid_collection env feature layer_name split_multi_features (g # gs) errors =
     (case visitor_geom_valid env feature layer_name split_multi_features g errors of
        Inl e \<Rightarrow> Inl e
      | Inr errors' \<Rightarrow>
          visitor_geom_valid_collection env feature layer_name split_multi_features gs errors')"

text \<open>
  The reprojecting branch of \<open>layer_not_valid\<close>: the loop over the featureset of the
  datasource. Each feature is visited under its own id.
\<close>

fun not_valid_loop ::
  "('c, 'v) mapnik \<Rightarrow> string \<Rightarrow> bool \<Rightarrow> bool \<Rightarrow> ('c, 'v) feature_impl list
     \<Rightarrow> not_valid_feature list \<Rightarrow> exn + not_valid_feature list" where
  "not_valid_loop env name split_multi_features lat_lon [] errors = Inr errors"
| "not_valid_loop env name split_multi_features lat_lon (feature # fs) errors =
     (case visitor_geom_valid env feature name split_multi_features
             (if lat_lon then reproject_copy env (get_geometry feature)
              else get_geometry feature) errors of
        Inl e \<Rightarrow> Inl e
      | Inr errors' \<Rightarrow> not_valid_loop env name split_multi_features lat_lon fs errors')"

text \<open>
  The other branch reads the layer message itself. The locals of the first loop are the
  feature messages, the version (initially 1) and the layer name.
\<close>

record layer_locals =
  layer_features :: "feature_msg list"
  version :: uint32
  layer_name :: string

fun read_layer :: "layer_msg \<Rightarrow> layer_locals \<Rightarrow> layer_locals" where
  "read_layer [] st = st"
| "read_layer (Layer_NAME s # rest) st = read_layer rest (st\<lparr>layer_name := s\<rparr>)"
| "read_layer (Layer_FEATURES m # rest) st =
     read_layer rest (st\<lparr>layer_features := layer_features st @ [m]\<rparr>)"
| "read_layer (Layer_VERSION v # rest) st = read_layer rest (st\<lparr>version := v\<rparr>)"
| "read_layer (Layer_OTHER # rest) st = read_layer rest st"

text \<open>The locals of the loop over the fields of one feature message.\<close>

record feature_locals =
  geom_itr :: "uint32 list"
  has_geom :: bool
  has_geom_type :: bool
  geom_type_enum :: int32
  read_feature_id :: uint64

fun read_feature :: "feature_msg \<Rightarrow> feature_locals \<Rightarrow> feature_locals" where
  "read_feature [] st = st"
| "read_feature (Feature_ID i # rest) st = read_feature rest (st\<lparr>read_feature_id := i\<rparr>)"
| "read_feature (Feature_TYPE t # rest) st =
     read_feature rest (st\<lparr>geom_type_enum := t, has_geom_type := True\<rparr>)"
| "read_feature (Feature_GEOMETRY g # rest) st =
     read_feature rest (st\<lparr>geom_itr := g, has_geom := True\<rparr>)"
| "read_feature (Feature_OTHER # rest) st = read_feature rest st"

text \<open>
  The body of the loop over the feature messages. The feature that is visited comes from
  \<open>feature_factory::create(ctx,1)\<close> with an empty context: its id is 1 and it has no
  attributes; the id read from the message is not used again.
\<close>

definition not_valid_feature_msg ::
  "('c, 'v) mapnik \<Rightarrow> string \<Rightarrow> uint32 \<Rightarrow> bool \<Rightarrow> feature_msg \<Rightarrow> not_valid_feature list
     \<Rightarrow> exn + not_valid_feature list" where
  "not_valid_feature_msg env name vers split_multi_features feature_msg errors =
     (let st = read_feature feature_msg
                 \<lparr>geom_itr = [], has_geom = False, has_geom_type = False,
                  geom_type_enum = 0, read_feature_id = 0\<rparr> in
      if has_geom st \<and> has_geom_type st then
        (case decode_geometry env (geom_itr st) (geom_type_enum st) vers of
           Inl e \<Rightarrow> Inl e
         | Inr g \<Rightarrow>
             visitor_geom_valid env \<lparr>get_id = 1, get_data = [], get_geometry = g\<rparr>
               name split_multi_features g errors)
      else Inr errors)"

fun not_valid_feature_msgs ::
  "('c, 'v) mapnik \<Rightarrow> string \<Rightarrow> uint32 \<Rightarrow> bool \<Rightarrow> feature_msg list \<Rightarrow> not_valid_feature list
     \<Rightarrow> exn + not_valid_feature list" where
  "not_valid_feature_msgs env name vers split_multi_features [] errors = Inr errors"
| "not_valid_feature_msgs env name vers split_multi_features (feature_msg # ms) errors =
     (case not_valid_feature_msg env name vers split_multi_features feature_msg errors of
        Inl e \<Rightarrow> Inl e
      | Inr errors' \<Rightarrow> not_valid_feature_msgs env name vers split_multi_features ms errors')"

definition layer_not_valid ::
  "('c, 'v) mapnik \<Rightarrow> layer_msg \<Rightarrow> uint32 \<Rightarrow> uint32 \<Rightarrow> uint32 \<Rightarrow> not_valid_feature list
     \<Rightarrow> bool \<Rightarrow> bool \<Rightarrow> bool \<Rightarrow> exn + not_valid_feature list" where
  "layer_not_valid env layer_msg x y z errors split_multi_features lat_lon web_merc =
     (if web_merc \<or> lat_lon then
        (case ds_features env layer_msg x y z of
           Inl e \<Rightarrow> Inl e
         | Inr None \<Rightarrow> Inr errors
         | Inr (Some fs) \<Rightarrow>
             not_valid_loop env (ds_get_name env layer_msg) split_multi_features lat_lon fs errors)
      else
        (let st = read_layer layer_msg \<lparr>layer_features = [], version = 1, layer_name = []\<rparr> in
         not_valid_feature_msgs env (layer_name st) (version st) split_multi_features
           (layer_features st) errors))"

fun not_valid_layers ::
  "('c, 'v) mapnik \<Rightarrow> merc_tile \<Rightarrow> layer_msg list \<Rightarrow> not_valid_feature list
     \<Rightarrow> bool \<Rightarrow> bool \<Rightarrow> bool \<Rightarrow> exn + not_valid_feature list" where
  "not_valid_layers env tile [] errors split_multi_features lat_lon web_merc = Inr errors"
| "not_valid_layers env tile (layer_msg # ls) errors split_multi_features lat_lon web_merc =
     (case layer_not_valid env layer_msg
             (ucast (tile_x tile)) (ucast (tile_y tile)) (ucast (tile_z tile))
             errors split_multi_features lat_lon web_merc of
        Inl e \<Rightarrow> Inl e
      | Inr errors' \<Rightarrow>
          not_valid_layers env tile ls errors' split_multi_features lat_lon web_merc)"

definition vector_tile_not_valid ::
  "('c, 'v) mapnik \<Rightarrow> merc_tile \<Rightarrow> not_valid_feature list \<Rightarrow> bool \<Rightarrow> bool \<Rightarrow> bool
     \<Rightarrow> exn + not_valid_feature list" where
  "vector_tile_not_valid env tile errors split_multi_features lat_lon web_merc =
     not_valid_layers env tile (buffer tile) errors split_multi_features lat_lon web_merc"

definition make_not_valid_array :: "not_valid_feature list \<Rightarrow> js_value" where
  "make_not_valid_array errors =
     JSArray (map (\<lambda>error. JSObject [(''layer'', JSString (layer error)),
                                       (''message'', JSString (message error)),
                                       (''featureId'', Number_New (feature_id error)),
                                       (''geojson'', JSString (geojson error))]) errors)"

fun IsBoolean :: "js_value \<Rightarrow> bool" where
  "IsBoolean (JSBoolean b) = True"
| "IsBoolean v = False"

fun BooleanValue :: "js_value \<Rightarrow> bool" where
  "BooleanValue (JSBoolean b) = b"
| "BooleanValue v = False"

text \<open>
  One boolean option of \<open>reportGeometryValiditySync\<close>: the value of the local after the
  block (initially \<open>false\<close>), or the exception thrown, whose message quotes the key.
\<close>

definition boolean_option :: "js_value \<Rightarrow> string \<Rightarrow> js_error + bool" where
  "boolean_option options key =
     (if Has options key then
        (let param_val = Get options key in
         if \<not> IsBoolean param_val
         then Inl (Error (''option '' @ [CHR 0x27] @ key @ [CHR 0x27] @ '' must be a boolean''))
         else Inr (BooleanValue param_val))
      else Inr False)"

text \<open>
  \<open>reportGeometryValiditySync\<close>: the options, then the check inside \<open>try\<close>; an exception
  caught becomes a JavaScript \<open>Error\<close> with its message.
\<close>

definition run_not_valid ::
  "('c, 'v) mapnik \<Rightarrow> merc_tile \<Rightarrow> bool \<Rightarrow> bool \<Rightarrow> bool \<Rightarrow> js_error + js_value" where
  "run_not_valid env tile split_multi_features lat_lon web_merc =
     (case vector_tile_not_valid env tile [] split_multi_features lat_lon web_merc of
        Inl (runtime_error what) \<Rightarrow> Inl (Error what)
      | Inr errors \<Rightarrow> Inr (make_not_valid_array errors))"

definition reportGeometryValiditySync ::
  "('c, 'v) mapnik \<Rightarrow> merc_tile \<Rightarrow> js_value list \<Rightarrow> js_error + js_value" where
  "reportGeometryValiditySync env tile info =
     (if length info \<ge> 1 then
        (if \<not> IsObject (info ! 0) then Inl (Error ''The first argument must be an object'')
         else
           (case boolean_option (info ! 0) ''split_multi_features'' of
              Inl e \<Rightarrow> Inl e
            | Inr split_multi_features \<Rightarrow>
                (case boolean_option (info ! 0) ''lat_lon'' of
                   Inl e \<Rightarrow> Inl e
                 | Inr lat_lon \<Rightarrow>
                     (case boolean_option (info ! 0) ''web_merc'' of
                        Inl e \<Rightarrow> Inl e
                      | Inr web_merc \<Rightarrow>
                          run_not_valid env tile split_multi_features lat_lon web_merc))))
      else run_not_valid env tile False False False)"

section \<open>Pixel access\<close>

text \<open>
  The image variant: the null image, or an image with pixel data (of any of the pixel
  types, \<open>'i\<close>). \<open>mapnik::get_pixel\<close> (which may throw), the conversion of a pixel value
  to a JavaScript number and \<open>mapnik::set_pixel\<close> are parameters; \<open>num\<close> is the
  JavaScript number whose double value is stored.
\<close>

datatype 'i image_any = image_null | image_data 'i

fun visitor_get_pixel ::
  "('i \<Rightarrow> int32 \<Rightarrow> int32 \<Rightarrow> exn + 'p) \<Rightarrow> ('p \<Rightarrow> js_value) \<Rightarrow> int32 \<Rightarrow> int32
     \<Rightarrow> 'i image_any \<Rightarrow> exn + js_value" where
  "visitor_get_pixel get_pixel number_of x y image_null = Inr JSUndefined"
| "visitor_get_pixel get_pixel number_of x y (image_data d) =
     (case get_pixel d x y of
        Inl e \<Rightarrow> Inl e
      | Inr val \<Rightarrow> Inr (number_of val))"

fun visitor_set_pixel ::
  "('i \<Rightarrow> int32 \<Rightarrow> int32 \<Rightarrow> js_value \<Rightarrow> 'i) \<Rightarrow> js_value \<Rightarrow> int32 \<Rightarrow> int32
     \<Rightarrow> 'i image_any \<Rightarrow> 'i image_any" where
  "visitor_set_pixel set_pixel num x y image_null = image_null"
| "visitor_set_pixel set_pixel num x y (image_data d) =
     image_data (set_pixel d x y num)"

section \<open>Concrete tiles\<close>

text \<open>
  A tile with one layer \<open>points\<close> of one point feature, at a given address, and a tile
  with the two layers \<open>a\<close> and \<open>b\<close>.
\<close>

definition points_tile :: "uint64 \<Rightarrow> uint64 \<Rightarrow> uint64 \<Rightarrow> merc_tile" where
  "points_tile z x y =
     (make_merc_tile x y z 4096 128)
       \<lparr>buffer := [[Layer_NAME ''points'',
                     Layer_FEATURES [Feature_ID 1, Feature_TYPE 1, Feature_GEOMETRY [9, 50, 34]],
                     Layer_VERSION 2]],
        layers := [''points''],
        painted_layers := {''points''}\<rparr>"

definition ab_tile :: merc_tile where
  "ab_tile =
     (make_merc_tile 0 0 0 4096 128)
       \<lparr>buffer := [[Layer_NAME ''a'',
                     Layer_FEATURES [Feature_ID 1, Feature_TYPE 1, Feature_GEOMETRY [9, 50, 34]],
                     Layer_VERSION 2],
                    [Layer_NAME ''b'',
                     Layer_FEATURES [Feature_ID 2, Feature_TYPE 1, Feature_GEOMETRY [9, 20, 20]],
                     Layer_VERSION 2]],
        layers := [''a'', ''b''],
        painted_layers := {''a'', ''b''}\<rparr>"

section \<open>The checks as the specification words them\<close>

text \<open>
  The simplicity report in the words of the specification, over the features
  \<open>featureset\<close> that each layer holds: for every layer, one \<open>{layer, featureId}\<close> entry
  per feature whose geometry is not simple, and nothing else.
\<close>

definition not_simple_entries ::
  "('c, 'v) mapnik \<Rightarrow> (layer_msg \<Rightarrow> ('c, 'v) feature_impl list option) \<Rightarrow> layer_msg list
     \<Rightarrow> not_simple_feature list" where
  "not_simple_entries env featureset ls =
     concat (map (\<lambda>layer_msg.
       case featureset layer_msg of
         None \<Rightarrow> []
       | Some fs \<Rightarrow>
           map (\<lambda>f. \<lparr>layer = ds_get_name env layer_msg, feature_id = get_id f\<rparr>)
             (filter (\<lambda>f. \<not> is_simple env (get_geometry f)) fs))
       ls)"

text \<open>
  The validity record of one geometry of a feature: the message of \<open>is_valid\<close> and the
  feature collection around the GeoJSON \<open>gj\<close> of the feature carrying that geometry.
\<close>

definition not_valid_entry ::
  "('c, 'v) mapnik \<Rightarrow> ('c, 'v) feature_impl \<Rightarrow> string \<Rightarrow> ('c geometry \<Rightarrow> string) \<Rightarrow> 'c geometry
     \<Rightarrow> not_valid_feature" where
  "not_valid_entry env feature name gj g =
     \<lparr>layer = name, feature_id = get_id feature, message = snd (is_valid env g),
      geojson = feature_collection (gj g)\<rparr>"

text \<open>
  The entries of a list of geometries, each tested by itself: one per geometry that is
  not valid.
\<close>

definition not_valid_entries ::
  "('c, 'v) mapnik \<Rightarrow> ('c, 'v) feature_impl \<Rightarrow> string \<Rightarrow> ('c geometry \<Rightarrow> string)
     \<Rightarrow> 'c geometry list \<Rightarrow> not_valid_feature list" where
  "not_valid_entries env feature name gj gs =
     map (not_valid_entry env feature name gj) (filter (\<lambda>g. \<not> fst (is_valid env g)) gs)"

section \<open>Stand-ins for the collaborators\<close>

text \<open>
  To run the checks on concrete tiles the parameters need values. These stand-ins are
  not the library functions: the packed geometry is read as plain coordinate pairs, a
  line is simple when its points are distinct, a line needs two points and a polygon
  ring four points to be valid, and the datasource yields every feature message of the
  layer under the id it carries.
\<close>

fun coordinate_pairs :: "uint32 list \<Rightarrow> (int \<times> int) list" where
  "coordinate_pairs (a # b # rest) = (uint a, uint b) # coordinate_pairs rest"
| "coordinate_pairs rest = []"

definition example_decode :: "uint32 list \<Rightarrow> int32 \<Rightarrow> int geometry" where
  "example_decode itr t =
     (if t = 3 then polygon [coordinate_pairs itr]
      else if t = 2 then line_string (coordinate_pairs itr)
      else multi_point (coordinate_pairs itr))"

fun example_is_simple :: "int geometry \<Rightarrow> bool" where
  "example_is_simple (line_string ps) = distinct ps"
| "example_is_simple g = True"

definition example_verdict :: "bool \<Rightarrow> bool \<times> string" where
  "example_verdict ok =
     (if ok then (True, ''Geometry is valid'') else (False, ''Geometry has too few points''))"

fun example_is_valid :: "int geometry \<Rightarrow> bool \<times> string" where
  "example_is_valid (line_string ps) = example_verdict (2 \<le> length ps)"
| "example_is_valid (multi_line_string ls) =
     example_verdict (list_all (\<lambda>ps. 2 \<le> length ps) ls)"
| "example_is_valid (polygon rings) =
     example_verdict (list_all (\<lambda>r. 4 \<le> length r) rings)"
| "example_is_valid (multi_polygon polys) =
     example_verdict (list_all (list_all (\<lambda>r. 4 \<le> length r)) polys)"
| "example_is_valid g = example_verdict True"

definition example_feature :: "feature_msg \<Rightarrow> (int, string) feature_impl" where
  "example_feature m =
     (let st = read_feature m
                 \<lparr>geom_itr = [], has_geom = False, has_geom_type = False,
                  geom_type_enum = 0, read_feature_id = 0\<rparr> in
      \<lparr>get_id = read_feature_id st, get_data = [],
       get_geometry = example_decode (geom_itr st) (geom_type_enum st)\<rparr>)"

definition example_mapnik :: "(int, string) mapnik" where
  "example_mapnik =
     \<lparr>is_simple = example_is_simple,
      is_valid = example_is_valid,
      to_geojson = (\<lambda>f. Some ''{}''),
      decode_geometry = (\<lambda>itr t v. Inr (example_decode itr t)),
      reproject_copy = (\<lambda>g. g),
      ds_get_name = (\<lambda>l. layer_name
                       (read_layer l \<lparr>layer_features = [], version = 1, layer_name = []\<rparr>)),
      ds_features = (\<lambda>l x y z. Inr (Some (map example_feature (layer_features
                       (read_layer l \<lparr>layer_features = [], version = 1, layer_name = []\<rparr>)))))\<rparr>"

text \<open>
  The tile \<open>(0,0,0)\<close> with the one layer \<open>roads\<close> of a single two-point line; one whose
  layer \<open>roads\<close> has a two-point line, of id 1, and a line that returns to its first
  point, of id 9; and one with the layer \<open>parcels\<close> whose feature, of id 7, is a polygon
  of three points.
\<close>

definition roads_tile :: merc_tile where
  "roads_tile =
     (make_merc_tile 0 0 0 4096 128)
       \<lparr>buffer := [[Layer_NAME ''roads'',
                     Layer_FEATURES [Feature_ID 1, Feature_TYPE 2,
                                     Feature_GEOMETRY [0, 0, 10, 10]],
                     Layer_VERSION 2]],
        layers := [''roads''],
        painted_layers := {''roads''}\<rparr>"

definition loop_tile :: merc_tile where
  "loop_tile =
     (make_merc_tile 0 0 0 4096 128)
       \<lparr>buffer := [[Layer_NAME ''roads'',
                     Layer_FEATURES [Feature_ID 1, Feature_TYPE 2,
                                     Feature_GEOMETRY [0, 0, 10, 10]],
                     Layer_FEATURES [Feature_ID 9, Feature_TYPE 2,
                                     Feature_GEOMETRY [0, 0, 10, 10, 0, 0]],
                     Layer_VERSION 2]],
        layers := [''roads''],
        painted_layers := {''roads''}\<rparr>"

definition parcels_layer :: layer_msg where
  "parcels_layer =
     [Layer_NAME ''parcels'',
      Layer_FEATURES [Feature_ID 7, Feature_TYPE 3, Feature_GEOMETRY [0, 0, 10, 10, 0, 0]],
      Layer_VERSION 2]"

definition parcels_tile :: merc_tile where
  "parcels_tile =
     (make_merc_tile 0 0 0 4096 128)
       \<lparr>buffer := [parcels_layer], layers := [''parcels''], painted_layers := {''parcels''}\<rparr>"

section \<open>Facts about the machine integers\<close>

lemma sint_of_int_64:
  "- (2 ^ 63) \<le> n \<Longrightarrow> n < 2 ^ 63 \<Longrightarrow> sint (word_of_int n :: 64 word) = n"
  by (simp add: sint_sbintrunc' signed_take_bit_int_eq_self)

lemma sint_of_int_32:
  "- (2 ^ 31) \<le> n \<Longrightarrow> n < 2 ^ 31 \<Longrightarrow> sint (word_of_int n :: 32 word) = n"
  by (simp add: sint_sbintrunc' signed_take_bit_int_eq_self)

lemma sint_Int64Value:
  "sint (Int64Value (JSNumber n)) = max (- (2 ^ 63)) (min n (2 ^ 63 - 1))"
  by (simp add: sint_of_int_64 max_def min_def)

lemma uint_scast_nonneg:
  assumes "0 \<le> sint (w :: 32 word)"
  shows "uint (scast w :: 64 word) = sint w"
proof -
  have "sint w < 2 ^ 31"
    using sint_lt [of w] by simp
  then have "sint w < 2 ^ 64"
    by (rule less_trans) simp
  with assms have "take_bit 64 (sint w) = sint w"
    by (simp add: take_bit_int_eq_self)
  moreover have "uint (scast w :: 64 word) = take_bit 64 (sint w)"
    by (simp only: scast_eq uint_word_of_int_eq len_of_numeral_defs) simp
  ultimately show ?thesis by simp
qed

lemma sint_double_32:
  assumes "- (2 ^ 30) \<le> sint (b :: 32 word)" "sint b < 2 ^ 30"
  shows "sint (2 * b) = 2 * sint b"
proof -
  have "sint (2 * b) = signed_take_bit 31 (2 * sint b)"
    using sint_word_mult [of 2 b] by simp
  also have "\<dots> = 2 * sint b"
    using assms by (intro signed_take_bit_int_eq_self) simp_all
  finally show ?thesis .
qed

lemma sint_eq_unat_32:
  assumes "unat (a :: 32 word) < 2 ^ 31"
  shows "sint a = int (unat a)"
proof -
  have "int (unat a) < int (2 ^ 31)"
    using assms by (simp only: of_nat_less_iff)
  then have "uint a < 2 ^ 31"
    by simp
  moreover have "- (2 ^ 31) \<le> uint a"
    by (rule order_trans [of _ 0]) simp_all
  ultimately have "sint (word_of_int (uint a) :: 32 word) = uint a"
    by (intro sint_of_int_32)
  then show ?thesis by simp
qed

lemma sint_add_double_32:
  assumes "unat (a :: 32 word) < 2 ^ 31"
    and "- (2 ^ 30) \<le> sint (b :: 32 word)" "sint b < 2 ^ 30"
    and "int (unat a) + 2 * sint b < 2 ^ 31"
  shows "sint (a + 2 * b) = int (unat a) + 2 * sint b"
proof -
  have "sint (a + 2 * b) = signed_take_bit 31 (sint a + sint (2 * b))"
    using sint_word_add [of a "2 * b"] by simp
  also have "\<dots> = signed_take_bit 31 (int (unat a) + 2 * sint b)"
    using assms by (simp only: sint_double_32 sint_eq_unat_32)
  also have "\<dots> = int (unat a) + 2 * sint b"
  proof (rule signed_take_bit_int_eq_self)
    have "0 \<le> uint a"
      by simp
    moreover have "- 1073741824 \<le> sint b"
      using assms(2) by simp
    ultimately have "- 2147483648 \<le> uint a + 2 * sint b"
      by linarith
    then show "- (2 ^ 31) \<le> int (unat a) + 2 * sint b"
      by simp
    from assms(4) show "int (unat a) + 2 * sint b < 2 ^ 31"
      by simp
  qed
  finally show ?thesis .
qed

lemma Int32Value_in_range:
  assumes "- (2 ^ 31) \<le> n" "n < 2 ^ 31"
  shows "sint (Int32Value (JSNumber n)) = n"
  using assms by (simp add: sint_of_int_32)

lemma scast_Int32Value_nonneg:
  assumes "0 \<le> n" "n < 2 ^ 31"
  shows "(scast (Int32Value (JSNumber n)) :: 64 word) = word_of_int n"
    and "uint (word_of_int n :: 64 word) = n"
proof -
  have s: "sint (word_of_int n :: 32 word) = n"
    using assms by (intro sint_of_int_32) simp_all
  have "(scast (word_of_int n :: 32 word) :: 64 word) = word_of_int (sint (word_of_int n :: 32 word))"
    by (simp only: scast_eq)
  with s show "(scast (Int32Value (JSNumber n)) :: 64 word) = word_of_int n"
    by simp
  have "n < 2 ^ 64"
    using assms(2) by (rule less_trans) simp
  with assms(1) have "take_bit 64 n = n"
    by (simp add: take_bit_int_eq_self)
  then show "uint (word_of_int n :: 64 word) = n"
    by (simp only: uint_word_of_int_eq len_of_numeral_defs) simp
qed

text \<open>
  The conversion to a double keeps every integer below \<open>2^53\<close> in magnitude and rounds
  beyond: \<open>2^53 + 1\<close> goes down to \<open>2^53\<close>, \<open>2^53 + 3\<close> up to \<open>2^53 + 4\<close>.
\<close>

lemma bit_length_0: "bit_length 0 = 0"
  by (subst bit_length.simps) simp

lemma bit_length_pos: "0 < n \<Longrightarrow> bit_length n = Suc (bit_length (n div 2))"
  by (subst bit_length.simps) simp

lemma bit_length_le: "m < 2 ^ k \<Longrightarrow> bit_length m \<le> k"
proof (induction k arbitrary: m)
  case 0
  then have "m = 0" by simp
  then show ?case by (simp add: bit_length_0)
next
  case (Suc k)
  show ?case
  proof (cases "m = 0")
    case True
    then show ?thesis by (simp add: bit_length_0)
  next
    case False
    from Suc.prems have "m div 2 < 2 ^ k" by simp
    then have "bit_length (m div 2) \<le> k" by (rule Suc.IH)
    with False show ?thesis by (subst bit_length.simps) simp
  qed
qed

lemma double_of_int_exact:
  assumes "\<bar>n\<bar> < 2 ^ 53"
  shows "double_of_int n = n"
proof -
  have "nat \<bar>n\<bar> < 2 ^ 53"
    using assms by (simp add: nat_less_iff)
  then have "bit_length (nat \<bar>n\<bar>) - 53 = 0"
    using bit_length_le [of "nat \<bar>n\<bar>" 53] by simp
  then show ?thesis
    by (simp add: double_of_int_def Let_def mult_sgn_abs)
qed

lemma Number_New_exact:
  "\<bar>sint i\<bar> < 2 ^ 53 \<Longrightarrow> Number_New i = JSNumber (sint i)"
  by (simp add: Number_New_def double_of_int_exact)

lemma Number_New_rounds:
  "Number_New 9007199254740993 = JSNumber 9007199254740992 \<and>
   Number_New 9007199254740995 = JSNumber 9007199254740996"
  by (simp add: Number_New_def double_of_int_def bit_length_pos bit_length_0)

lemma pow2_zoom_bound:
  assumes "0 \<le> z" "z \<le> 62"
  shows "(2::int) ^ nat z \<le> 4611686018427387904"
proof -
  have "(2::int) ^ nat z \<le> 2 ^ 62"
    using assms by (intro power_increasing) simp_all
  then show ?thesis by simp
qed

lemma sint_max_at_zoom:
  assumes "0 \<le> z" "z \<le> 62"
  shows "sint (max_at_zoom (Int64Value (JSNumber z))) = 2 ^ nat z"
proof -
  define p :: int where "p = 2 ^ nat z"
  have p: "0 < p" "p \<le> 4611686018427387904"
    unfolding p_def using pow2_zoom_bound [OF assms] by simp_all
  have z: "Int64Value (JSNumber z) = word_of_int z" "sint (word_of_int z :: 64 word) = z"
    using assms by (simp_all add: sint_of_int_64)
  have "sint (word_of_int p :: 64 word) = p"
    using p by (intro sint_of_int_64) simp_all
  with z assms show ?thesis
    by (simp only: max_at_zoom_def if_True p_def)
qed

section \<open>The constructor: address and options\<close>

text \<open>
  Up to zoom 62 the constructor decides on the address as the invariant \<open>0 \<le> x, y < 2^z\<close>
  says, for every integral \<open>x\<close> and \<open>y\<close>, and without options the tile has the default
  tile size 4096 and buffer size 128.
\<close>

lemma VectorTile_new_address:
  assumes "0 \<le> z" "z \<le> 62"
  shows "VectorTile_new [JSNumber z, JSNumber x, JSNumber y] =
     (if x < 0 \<or> y < 0
      then Inl (TypeError
             ''required parameters (z, x, and y) must be greater then or equal to zero'')
      else if 2 ^ nat z \<le> x
      then Inl (TypeError
             ''required parameter x is out of range of possible values based on z value'')
      else if 2 ^ nat z \<le> y
      then Inl (TypeError
             ''required parameter y is out of range of possible values based on z value'')
      else Inr (make_merc_tile (word_of_int x) (word_of_int y) (word_of_int z) 4096 128))"
proof -
  define p :: int where "p = 2 ^ nat z"
  have p: "0 < p" "p \<le> 4611686018427387904"
    unfolding p_def using pow2_zoom_bound [OF assms] by simp_all
  let ?Z = "Int64Value (JSNumber z)"
  let ?X = "Int64Value (JSNumber x)"
  let ?Y = "Int64Value (JSNumber y)"
  have o: "constructor_options [JSNumber z, JSNumber x, JSNumber y] = Inr (4096, 128)"
    by (simp add: constructor_options_def)
  have eq: "VectorTile_new [JSNumber z, JSNumber x, JSNumber y] =
     (if sint ?Z < 0 \<or> sint ?X < 0 \<or> sint ?Y < 0
      then Inl (TypeError
             ''required parameters (z, x, and y) must be greater then or equal to zero'')
      else if sint (max_at_zoom ?Z) \<le> sint ?X
      then Inl (TypeError
             ''required parameter x is out of range of possible values based on z value'')
      else if sint (max_at_zoom ?Z) \<le> sint ?Y
      then Inl (TypeError
             ''required parameter y is out of range of possible values based on z value'')
      else Inr (make_merc_tile ?X ?Y ?Z 4096 128))"
    by (simp add: VectorTile_new_def Let_def o del: Int64Value.simps)
  have m: "sint (max_at_zoom ?Z) = p"
    unfolding p_def using assms by (rule sint_max_at_zoom)
  have neg: "(sint (Int64Value (JSNumber n)) < 0) = (n < 0)" for n
    by (simp add: sint_Int64Value max_def min_def del: Int64Value.simps)
  have big: "(p \<le> sint (Int64Value (JSNumber n))) = (p \<le> n)" for n
    unfolding sint_Int64Value using p by (simp add: max_def min_def)
  have small: "Int64Value (JSNumber n) = word_of_int n" if "\<not> n < 0" "\<not> p \<le> n" for n
    using p that by simp
  have Zw: "?Z = word_of_int z"
    using assms by simp
  have step: "VectorTile_new [JSNumber z, JSNumber x, JSNumber y] =
     (if z < 0 \<or> x < 0 \<or> y < 0
      then Inl (TypeError
             ''required parameters (z, x, and y) must be greater then or equal to zero'')
      else if p \<le> x
      then Inl (TypeError
             ''required parameter x is out of range of possible values based on z value'')
      else if p \<le> y
      then Inl (TypeError
             ''required parameter y is out of range of possible values based on z value'')
      else Inr (make_merc_tile ?X ?Y ?Z 4096 128))"
    unfolding eq m neg big by (rule refl)
  have "VectorTile_new [JSNumber z, JSNumber x, JSNumber y] =
     (if x < 0 \<or> y < 0
      then Inl (TypeError
             ''required parameters (z, x, and y) must be greater then or equal to zero'')
      else if p \<le> x
      then Inl (TypeError
             ''required parameter x is out of range of possible values based on z value'')
      else if p \<le> y
      then Inl (TypeError
             ''required parameter y is out of range of possible values based on z value'')
      else Inr (make_merc_tile (word_of_int x) (word_of_int y) (word_of_int z) 4096 128))"
    using assms by (simp add: step small Zw del: Int64Value.simps)
  then show ?thesis by (simp only: p_def)
qed

lemma VectorTile_new_negative_zoom:
  "z < 0 \<Longrightarrow> VectorTile_new [JSNumber z, JSNumber x, JSNumber y] =
     Inl (TypeError
       ''required parameters (z, x, and y) must be greater then or equal to zero'')"
  unfolding VectorTile_new_def Let_def
  by (simp add: sint_Int64Value max_def min_def del: Int64Value.simps)

text \<open>From zoom 63 on no address is accepted.\<close>

lemma VectorTile_new_large_zoom:
  "63 \<le> z \<Longrightarrow> \<exists>e. VectorTile_new [JSNumber z, JSNumber x, JSNumber y] = Inl e"
proof -
  assume z: "63 \<le> z"
  then have "62 < sint (Int64Value (JSNumber z))"
    by (simp add: sint_Int64Value max_def min_def del: Int64Value.simps)
  then have m: "sint (max_at_zoom (Int64Value (JSNumber z))) = - (2 ^ 63)"
    by (simp add: max_at_zoom_def del: Int64Value.simps)
  have "- (2 ^ 63) \<le> sint (Int64Value (JSNumber x))"
    by (simp add: sint_Int64Value max_def min_def del: Int64Value.simps)
  with m show ?thesis
    unfolding VectorTile_new_def Let_def
    by (simp del: Int64Value.simps)
qed

text \<open>
  C2. The claim: construction fails when \<open>z\<close>, \<open>x\<close> or \<open>y\<close> is negative or \<open>x\<close> or \<open>y\<close> is
  at least \<open>2^z\<close>, and succeeds for every address with \<open>0 \<le> x, y < 2^z\<close>. The scenario
  \<open>new VectorTile(0, 1, 0)\<close> fails as claimed. The address \<open>(63, 0, 0)\<close> satisfies
  \<open>0 \<le> x, y < 2^63\<close> and is refused all the same: \<open>max_at_zoom\<close> is no longer \<open>2^z\<close>
  there.
\<close>

theorem VectorTile_new_zoom_63:
  "VectorTile_new [JSNumber 0, JSNumber 1, JSNumber 0] =
     Inl (TypeError ''required parameter x is out of range of possible values based on z value'') \<and>
   VectorTile_new [JSNumber 63, JSNumber 0, JSNumber 0] =
     Inl (TypeError ''required parameter x is out of range of possible values based on z value'') \<and>
   VectorTile_new [JSNumber 62, JSNumber 0, JSNumber 0] =
     Inr (make_merc_tile 0 0 62 4096 128)"
  by (simp add: VectorTile_new_def max_at_zoom_def constructor_options_def)

text \<open>
  The options. A \<open>tile_size\<close> in the signed 32-bit range that is not positive is refused,
  and so is a pair whose \<open>tile_size + 2 * buffer_size\<close> is not positive, as long as the
  buffer size is doubled without overflow.
\<close>

lemma constructor_options_default:
  "\<not> 3 < length info \<Longrightarrow> constructor_options info = Inr (4096, 128)"
  by (simp add: constructor_options_def)

lemma VectorTile_new_rejects_tile_size:
  assumes "3 < length info"
    and "map_of (properties (info ! 3)) ''tile_size'' = Some (JSNumber n)"
    and "- (2 ^ 31) \<le> n" "n \<le> 0"
  shows "\<exists>e. VectorTile_new info = Inl e"
proof -
  have "sint (word_of_int n :: 32 word) = n"
    using assms(3,4) by (intro sint_of_int_32) simp_all
  with assms(4) have "sint (Int32Value (JSNumber n)) \<le> 0"
    by simp
  then have "\<exists>e. option_tile_size (info ! 3) = Inl e"
    using assms(2) by (simp add: option_tile_size_def Has_def Get_def del: Int32Value.simps)
  then have "\<exists>e. constructor_options info = Inl e"
    using assms(1) by (auto simp: constructor_options_def)
  moreover have "\<not> (length info = 1 \<and> IsExternal (info ! 0))" "\<not> length info < 3"
    using assms(1) by simp_all
  ultimately show ?thesis
    by (auto simp: VectorTile_new_def Let_def)
qed

lemma VectorTile_new_rejects_effective_size:
  assumes "constructor_options info = Inr (ts, bs)"
    and "- (2 ^ 30) \<le> sint bs" "sint bs < 2 ^ 30"
    and "int (unat ts) + 2 * sint bs \<le> 0"
  shows "\<exists>e. VectorTile_new info = Inl e"
proof (cases "3 < length info")
  case False
  with assms(1) have "ts = 4096 \<and> bs = 128"
    by (simp add: constructor_options_default)
  with assms(4) show ?thesis by simp
next
  case True
  then have "\<not> (length info = 1 \<and> IsExternal (info ! 0))" "\<not> length info < 3"
    by simp_all
  moreover have "int (unat ts) + sint (2 * bs) \<le> 0"
    using assms by (simp only: sint_double_32)
  ultimately show ?thesis
    using assms(1) by (simp add: VectorTile_new_def Let_def)
qed

text \<open>
  C9. The claim: a non-positive \<open>tile_size\<close> and any pair with
  \<open>tile_size + 2 * buffer_size \<le> 0\<close> raise an error and no tile is constructed; without
  options the tile size is 4096. The default holds, and \<open>tile_size: 0\<close> is refused. The
  buffer size \<open>-2147483648\<close> is accepted with the default tile size, although
  \<open>4096 + 2 * (-2147483648)\<close> is negative: the doubled buffer size wraps around to 0.
  The tile size \<open>-4294967295\<close> is accepted as 1: only its bottom 32 bits are looked at.
\<close>

theorem VectorTile_new_options_overflow:
  "VectorTile_new [JSNumber 0, JSNumber 0, JSNumber 0] = Inr (make_merc_tile 0 0 0 4096 128) \<and>
   VectorTile_new [JSNumber 0, JSNumber 0, JSNumber 0, JSObject [(''tile_size'', JSNumber 0)]]
     = Inl (TypeError ''optional arg 'tile_size' must be greater then zero'') \<and>
   VectorTile_new [JSNumber 0, JSNumber 0, JSNumber 0,
                   JSObject [(''buffer_size'', JSNumber (- 2147483648))]]
     = Inr (make_merc_tile 0 0 0 4096 (- 2147483648)) \<and>
   effective_size (make_merc_tile 0 0 0 4096 (- 2147483648)) = - 4294963200 \<and>
   VectorTile_new [JSNumber 0, JSNumber 0, JSNumber 0,
                   JSObject [(''tile_size'', JSNumber (- 4294967295))]]
     = Inr (make_merc_tile 0 0 0 1 128)"
  by (simp add: VectorTile_new_def max_at_zoom_def constructor_options_def option_tile_size_def
      option_buffer_size_def Has_def Get_def effective_size_def make_merc_tile_def
      word_uint_eq_iff uint_word_of_int)

section \<open>The size and address setters\<close>

text \<open>
  The constructor leaves \<open>tile_size + 2 * buffer_size\<close> positive and \<open>set_buffer_size\<close>
  keeps it positive, both as long as the 32-bit arithmetic of their checks does not
  overflow. \<open>set_tile_size\<close> looks at the sign of the new tile size only.
\<close>

lemma VectorTile_new_effective_size:
  assumes "VectorTile_new info = Inr t" "length info \<noteq> 1"
    and "- (2 ^ 30) \<le> sint (buffer_size t)" "sint (buffer_size t) < 2 ^ 30"
  shows "0 < effective_size t"
proof -
  from assms(1,2) obtain x y z ts bs where
    t: "t = make_merc_tile x y z ts bs" and
    c: "\<not> int (unat ts) + sint (2 * bs) \<le> 0"
    by (auto simp: VectorTile_new_def Let_def split: if_splits sum.splits prod.splits)
  from t assms(3,4) have "sint (2 * bs) = 2 * sint bs"
    by (intro sint_double_32) (simp_all add: make_merc_tile_def)
  with c t show ?thesis
    by (simp add: effective_size_def make_merc_tile_def)
qed

lemma set_buffer_size_effective_size:
  assumes "snd (set_buffer_size t v) = None"
    and "unat (tile_size t) < 2 ^ 31"
    and "- (2 ^ 30) \<le> sint (Int32Value v)" "sint (Int32Value v) < 2 ^ 30"
    and "int (unat (tile_size t)) + 2 * sint (Int32Value v) < 2 ^ 31"
  shows "0 < effective_size (fst (set_buffer_size t v))"
proof -
  have "sint (tile_size t + 2 * Int32Value v) = int (unat (tile_size t)) + 2 * sint (Int32Value v)"
    using assms(2-5) by (rule sint_add_double_32)
  with assms(1) show ?thesis
    by (auto simp: set_buffer_size_def Let_def effective_size_def split: if_splits)
qed

lemma set_tile_size_checks_sign_only:
  "(snd (set_tile_size t v) = None) = (IsNumber v \<and> 0 < sint (Int32Value v))"
  by (auto simp: set_tile_size_def Let_def)

text \<open>
  C3. The claim: \<open>tile_size + 2 * buffer_size\<close> is positive after construction and after
  every successful assignment to \<open>tileSize\<close> and to \<open>bufferSize\<close>. The tile
  \<open>new VectorTile(0, 0, 0, {buffer_size: -100})\<close> is constructed, with
  \<open>4096 + 2 * (-100) = 3896\<close>; the assignment \<open>tileSize = 10\<close> then succeeds and leaves
  \<open>10 + 2 * (-100) = -190\<close>.
\<close>

theorem set_tile_size_breaks_effective_size:
  "VectorTile_new [JSNumber 0, JSNumber 0, JSNumber 0, JSObject [(''buffer_size'', JSNumber (- 100))]]
     = Inr (make_merc_tile 0 0 0 4096 (- 100)) \<and>
   effective_size (make_merc_tile 0 0 0 4096 (- 100)) = 3896 \<and>
   set_tile_size (make_merc_tile 0 0 0 4096 (- 100)) (JSNumber 10)
     = ((make_merc_tile 0 0 0 4096 (- 100))\<lparr>tile_size := 10\<rparr>, None) \<and>
   effective_size ((make_merc_tile 0 0 0 4096 (- 100))\<lparr>tile_size := 10\<rparr>) = - 190"
  by (simp add: VectorTile_new_def max_at_zoom_def constructor_options_def option_tile_size_def
      option_buffer_size_def Has_def Get_def set_tile_size_def effective_size_def make_merc_tile_def)

text \<open>
  C4, as it is stated: after a successful assignment to \<open>x\<close> the stored address satisfies
  \<open>0 \<le> x < 2^z\<close>. On the tile \<open>(0, 0, 0)\<close> the assignment \<open>x = 5\<close> succeeds, and 5 is
  not below \<open>2^0\<close>.
\<close>

theorem set_tile_x_counterexample:
  "snd (set_tile_x (make_merc_tile 0 0 0 4096 128) (JSNumber 5)) = None \<and>
   \<not> unat (tile_x (fst (set_tile_x (make_merc_tile 0 0 0 4096 128) (JSNumber 5))))
       < 2 ^ unat (tile_z (fst (set_tile_x (make_merc_tile 0 0 0 4096 128) (JSNumber 5))))"
  by (simp add: set_tile_x_def make_merc_tile_def)

text \<open>
  In terms of the signed 32-bit value that \<open>Int32Value\<close> makes of the assigned number:
  the setters of \<open>x\<close> and \<open>y\<close> succeed exactly when it is not negative, store it, and
  otherwise leave the tile as it was.
\<close>

lemma set_tile_xy_Int32Value:
  "(snd (set_tile_x t v) = None) = (IsNumber v \<and> 0 \<le> sint (Int32Value v)) \<and>
   (snd (set_tile_x t v) = None \<longrightarrow>
      fst (set_tile_x t v) = t\<lparr>tile_x := scast (Int32Value v)\<rparr> \<and>
      uint (tile_x (fst (set_tile_x t v))) = sint (Int32Value v) \<and>
      uint (tile_x (fst (set_tile_x t v))) < 2 ^ 31) \<and>
   (snd (set_tile_x t v) \<noteq> None \<longrightarrow> fst (set_tile_x t v) = t) \<and>
   (snd (set_tile_y t v) = None) = (IsNumber v \<and> 0 \<le> sint (Int32Value v)) \<and>
   (snd (set_tile_y t v) = None \<longrightarrow>
      fst (set_tile_y t v) = t\<lparr>tile_y := scast (Int32Value v)\<rparr> \<and>
      uint (tile_y (fst (set_tile_y t v))) = sint (Int32Value v) \<and>
      uint (tile_y (fst (set_tile_y t v))) < 2 ^ 31) \<and>
   (snd (set_tile_y t v) \<noteq> None \<longrightarrow> fst (set_tile_y t v) = t)"
proof -
  have b: "sint (Int32Value v) < 2 ^ 31"
    using sint_lt [of "Int32Value v"] by simp
  show ?thesis
    using b by (auto simp: set_tile_x_def set_tile_y_def Let_def uint_scast_nonneg)
qed

text \<open>
  C4, amended: the setters of \<open>x\<close> and \<open>y\<close> validate the sign of the field they set, and
  nothing against the zoom. For every assigned number \<open>n\<close> of the signed 32-bit range
  (\<open>-2^31 \<le> n < 2^31\<close>): when \<open>n\<close> is not negative the assignment succeeds, the field
  is \<open>n\<close> afterwards, whatever the zoom, and nothing else of the tile changes; when \<open>n\<close>
  is negative the assignment throws and leaves the tile as it was. An assignment of a
  value that is not a number throws and leaves the tile as it was. Numbers outside the
  32-bit range are left out of the statement.
\<close>

theorem set_tile_xy_validate_sign:
  assumes "- (2 ^ 31) \<le> n" "n < 2 ^ 31"
  shows "(0 \<le> n \<longrightarrow>
            set_tile_x t (JSNumber n) = (t\<lparr>tile_x := word_of_int n\<rparr>, None) \<and>
            uint (tile_x (fst (set_tile_x t (JSNumber n)))) = n) \<and>
         (n < 0 \<longrightarrow>
            set_tile_x t (JSNumber n) =
              (t, Some (Error ''tile x coordinate must be greater then or equal to zero''))) \<and>
         (\<not> IsNumber v \<longrightarrow> set_tile_x t v = (t, Some (Error ''Must provide a number''))) \<and>
         (0 \<le> n \<longrightarrow>
            set_tile_y t (JSNumber n) = (t\<lparr>tile_y := word_of_int n\<rparr>, None) \<and>
            uint (tile_y (fst (set_tile_y t (JSNumber n)))) = n) \<and>
         (n < 0 \<longrightarrow>
            set_tile_y t (JSNumber n) =
              (t, Some (Error ''tile y coordinate must be greater then or equal to zero''))) \<and>
         (\<not> IsNumber v \<longrightarrow> set_tile_y t v = (t, Some (Error ''Must provide a number'')))"
proof -
  have s: "sint (Int32Value (JSNumber n)) = n"
    using assms by (rule Int32Value_in_range)
  have c: "(scast (Int32Value (JSNumber n)) :: 64 word) = word_of_int n"
          "uint (word_of_int n :: 64 word) = n" if "0 \<le> n"
    using that assms(2) by (rule scast_Int32Value_nonneg)+
  have x1: "0 \<le> n \<longrightarrow>
            set_tile_x t (JSNumber n) = (t\<lparr>tile_x := word_of_int n\<rparr>, None) \<and>
            uint (tile_x (fst (set_tile_x t (JSNumber n)))) = n"
    using s c by (simp add: set_tile_x_def Let_def del: Int32Value.simps)
  have x2: "n < 0 \<longrightarrow>
            set_tile_x t (JSNumber n) =
              (t, Some (Error ''tile x coordinate must be greater then or equal to zero''))"
    using s by (simp add: set_tile_x_def Let_def del: Int32Value.simps)
  have x3: "\<not> IsNumber v \<longrightarrow> set_tile_x t v = (t, Some (Error ''Must provide a number''))"
    by (simp add: set_tile_x_def)
  have y1: "0 \<le> n \<longrightarrow>
            set_tile_y t (JSNumber n) = (t\<lparr>tile_y := word_of_int n\<rparr>, None) \<and>
            uint (tile_y (fst (set_tile_y t (JSNumber n)))) = n"
    using s c by (simp add: set_tile_y_def Let_def del: Int32Value.simps)
  have y2: "n < 0 \<longrightarrow>
            set_tile_y t (JSNumber n) =
              (t, Some (Error ''tile y coordinate must be greater then or equal to zero''))"
    using s by (simp add: set_tile_y_def Let_def del: Int32Value.simps)
  have y3: "\<not> IsNumber v \<longrightarrow> set_tile_y t v = (t, Some (Error ''Must provide a number''))"
    by (simp add: set_tile_y_def)
  from x1 x2 x3 y1 y2 y3 show ?thesis by (intro conjI)
qed

theorem set_tile_xy_validate_sign_witness:
  "set_tile_x (make_merc_tile 0 0 0 4096 128) (JSNumber 5)
     = ((make_merc_tile 0 0 0 4096 128)\<lparr>tile_x := 5\<rparr>, None) \<and>
   set_tile_y (make_merc_tile 0 0 0 4096 128) (JSNumber (- 1))
     = (make_merc_tile 0 0 0 4096 128,
        Some (Error ''tile y coordinate must be greater then or equal to zero'')) \<and>
   set_tile_x (make_merc_tile 0 0 0 4096 128) (JSString ''5'')
     = (make_merc_tile 0 0 0 4096 128, Some (Error ''Must provide a number''))"
  using set_tile_xy_validate_sign [of 5 "make_merc_tile 0 0 0 4096 128" "JSString ''5''"]
    set_tile_xy_validate_sign [of "- 1" "make_merc_tile 0 0 0 4096 128" "JSString ''5''"]
  by simp

section \<open>Compositing and layer extraction\<close>

lemma composite_returns_undefined:
  "VectorTile_compositeSync t info = (t, Inr JSUndefined) \<and>
   VectorTile_composite t info = (t, Inr JSUndefined)"
  by (simp add: VectorTile_compositeSync_def VectorTile_composite_def)

text \<open>
  C1. The claim: compositing merges the layers of the source tiles into the buffer of
  the destination; two tiles at \<open>(1,0,0)\<close> and \<open>(1,1,0)\<close> with a one-feature layer
  \<open>points\<close> leave the destination with a painted layer \<open>points\<close> of two features. Both
  entry points return \<open>undefined\<close> and the destination \<open>(0,0,0)\<close> is as before: its
  buffer is empty, it has no layer names and it is not painted.
\<close>

theorem composite_leaves_destination:
  "VectorTile_compositeSync (make_merc_tile 0 0 0 4096 128)
     [JSArray [JSVectorTile (points_tile 1 0 0), JSVectorTile (points_tile 1 1 0)]]
     = (make_merc_tile 0 0 0 4096 128, Inr JSUndefined) \<and>
   VectorTile_composite (make_merc_tile 0 0 0 4096 128)
     [JSArray [JSVectorTile (points_tile 1 0 0), JSVectorTile (points_tile 1 1 0)], JSFunction]
     = (make_merc_tile 0 0 0 4096 128, Inr JSUndefined) \<and>
   buffer (make_merc_tile 0 0 0 4096 128) = [] \<and>
   VectorTile_names (make_merc_tile 0 0 0 4096 128) = JSArray [] \<and>
   VectorTile_painted (make_merc_tile 0 0 0 4096 128) = JSBoolean False"
  by (simp add: VectorTile_compositeSync_def VectorTile_composite_def make_merc_tile_def
      VectorTile_names_def VectorTile_painted_def is_painted_def)

text \<open>
  C8. The claim: extracting a layer that the tile does not have is an error, and
  extracting one it has returns a new tile with that layer's bytes. On the tile with the
  layers \<open>a\<close> and \<open>b\<close>, \<open>layer\<close> of the name \<open>c\<close> throws nothing and returns \<open>undefined\<close>,
  and so does \<open>layer\<close> of the name \<open>a\<close>.
\<close>

theorem layer_returns_undefined:
  "\<not> has_layer ab_tile ''c'' \<and>
   VectorTile_layer ab_tile [JSString ''c''] = (ab_tile, Inr JSUndefined) \<and>
   has_layer ab_tile ''a'' \<and>
   VectorTile_layer ab_tile [JSString ''a''] = (ab_tile, Inr JSUndefined)"
  by (simp add: VectorTile_layer_def has_layer_def ab_tile_def)

section \<open>The simplicity report\<close>

lemma not_simple_loop_eq:
  "not_simple_loop env name fs errors =
     errors @ map (\<lambda>f. \<lparr>layer = name, feature_id = get_id f\<rparr>)
                (filter (\<lambda>f. \<not> is_simple env (get_geometry f)) fs)"
  by (induction fs arbitrary: errors) simp_all

lemma layer_not_simple_eq:
  assumes "ds_features env layer_msg x y z = Inr (featureset layer_msg)"
  shows "layer_not_simple env layer_msg x y z errors =
           Inr (errors @ not_simple_entries env featureset [layer_msg])"
  using assms
  by (simp add: layer_not_simple_def not_simple_entries_def not_simple_loop_eq
      split: option.split)

lemma not_simple_entries_Cons:
  "not_simple_entries env featureset (l # ls) =
     not_simple_entries env featureset [l] @ not_simple_entries env featureset ls"
  by (simp add: not_simple_entries_def)

lemma not_simple_layers_eq:
  assumes "\<And>l. l \<in> set ls \<Longrightarrow>
             ds_features env l (ucast (tile_x tile)) (ucast (tile_y tile)) (ucast (tile_z tile))
               = Inr (featureset l)"
  shows "not_simple_layers env tile ls errors =
           Inr (errors @ not_simple_entries env featureset ls)"
  using assms
proof (induction ls arbitrary: errors)
  case Nil
  show ?case by (simp add: not_simple_entries_def)
next
  case (Cons l ls)
  have l: "layer_not_simple env l (ucast (tile_x tile)) (ucast (tile_y tile))
             (ucast (tile_z tile)) errors
           = Inr (errors @ not_simple_entries env featureset [l])"
    by (rule layer_not_simple_eq) (simp add: Cons.prems)
  have "not_simple_layers env tile ls (errors @ not_simple_entries env featureset [l]) =
          Inr ((errors @ not_simple_entries env featureset [l])
               @ not_simple_entries env featureset ls)"
    by (rule Cons.IH) (simp add: Cons.prems)
  with l show ?case
    by (simp add: not_simple_entries_Cons [of env featureset l ls])
qed

text \<open>
  An exception of the datasource leaves the check by the \<open>catch\<close> block, as a JavaScript
  \<open>Error\<close>.
\<close>

lemma not_simple_layers_throws:
  assumes "ds_features env l (ucast (tile_x tile)) (ucast (tile_y tile)) (ucast (tile_z tile))
             = Inl e"
  shows "not_simple_layers env tile (l # ls) errors = Inl e"
  using assms by (simp add: layer_not_simple_def)

lemma reportGeometrySimplicitySync_throws:
  assumes "buffer tile = l # ls"
    and "ds_features env l (ucast (tile_x tile)) (ucast (tile_y tile)) (ucast (tile_z tile))
           = Inl (runtime_error what)"
  shows "reportGeometrySimplicitySync env tile info = Inl (Error what)"
  using assms
  by (simp add: reportGeometrySimplicitySync_def vector_tile_not_simple_def
      layer_not_simple_def)

text \<open>
  C6. For every tile whose layers the datasource reads (\<open>featureset\<close>: the features it
  yields per layer), the simplicity check appends exactly the entries of
  \<open>not_simple_entries\<close>: one per feature, of every layer, whose geometry is not simple,
  in order, and no other entry; their number is the number of such features.
  \<open>reportGeometrySimplicitySync\<close> returns the array of these entries, each an object
  with the layer name under \<open>layer\<close> and the feature id, as a number, under
  \<open>featureId\<close>. A feature that is not simple is an entry of the result and never an
  exception: however many there are, the call returns the array. For a tile whose only
  feature is simple the array is empty.
\<close>

theorem simplicity_report:
  assumes "\<And>l. l \<in> set (buffer tile) \<Longrightarrow>
             ds_features env l (ucast (tile_x tile)) (ucast (tile_y tile)) (ucast (tile_z tile))
               = Inr (featureset l)"
  shows "vector_tile_not_simple env tile errors =
           Inr (errors @ not_simple_entries env featureset (buffer tile)) \<and>
         reportGeometrySimplicitySync env tile info =
           Inr (JSArray (map (\<lambda>e. JSObject [(''layer'', JSString (layer e)),
                                              (''featureId'', Number_New (feature_id e))])
                  (not_simple_entries env featureset (buffer tile)))) \<and>
         length (not_simple_entries env featureset (buffer tile)) =
           sum_list (map (\<lambda>l. case featureset l of
                                 None \<Rightarrow> 0
                               | Some fs \<Rightarrow>
                                   length (filter (\<lambda>f. \<not> is_simple env (get_geometry f)) fs))
                      (buffer tile)) \<and>
         (buffer tile = [layer_msg] \<and> featureset layer_msg = Some [f] \<and>
          is_simple env (get_geometry f)
          \<longrightarrow> reportGeometrySimplicitySync env tile info = Inr (JSArray []))"
proof -
  have a: "vector_tile_not_simple env tile errors =
           Inr (errors @ not_simple_entries env featureset (buffer tile))" for errors
    unfolding vector_tile_not_simple_def
    by (rule not_simple_layers_eq) (rule assms)
  have b: "reportGeometrySimplicitySync env tile info =
           Inr (JSArray (map (\<lambda>e. JSObject [(''layer'', JSString (layer e)),
                                              (''featureId'', Number_New (feature_id e))])
                  (not_simple_entries env featureset (buffer tile))))"
    by (simp add: reportGeometrySimplicitySync_def a [of "[]"] make_not_simple_array_def)
  have c: "length (not_simple_entries env featureset (buffer tile)) =
           sum_list (map (\<lambda>l. case featureset l of
                                 None \<Rightarrow> 0
                               | Some fs \<Rightarrow>
                                   length (filter (\<lambda>f. \<not> is_simple env (get_geometry f)) fs))
                      (buffer tile))"
    unfolding not_simple_entries_def length_concat map_map
    by (rule arg_cong [where f = sum_list], rule map_cong) (simp_all split: option.split)
  have d: "buffer tile = [layer_msg] \<and> featureset layer_msg = Some [f] \<and>
          is_simple env (get_geometry f)
          \<longrightarrow> reportGeometrySimplicitySync env tile info = Inr (JSArray [])"
    by (simp add: b not_simple_entries_def)
  from a b c d show ?thesis by blast
qed

theorem simplicity_report_witness:
  "is_simple example_mapnik (line_string [(0, 0), (10, 10)]) \<and>
   reportGeometrySimplicitySync example_mapnik roads_tile [] = Inr (JSArray []) \<and>
   \<not> is_simple example_mapnik (line_string [(0, 0), (10, 10), (0, 0)]) \<and>
   reportGeometrySimplicitySync example_mapnik loop_tile [] =
     Inr (JSArray [JSObject [(''layer'', JSString ''roads''), (''featureId'', JSNumber 9)]])"
proof -
  let ?fs = "\<lambda>l. Some (map example_feature (layer_features
               (read_layer l \<lparr>layer_features = [], version = 1, layer_name = []\<rparr>)))"
  have ds: "ds_features example_mapnik l x y z = Inr (?fs l)" for l x y z
    by (simp add: example_mapnik_def)
  let ?l = "[Layer_NAME ''roads'',
             Layer_FEATURES [Feature_ID 1, Feature_TYPE 2, Feature_GEOMETRY [0, 0, 10, 10]],
             Layer_VERSION 2]"
  let ?f = "\<lparr>get_id = 1, get_data = [], get_geometry = line_string [(0, 0), (10, 10)]\<rparr>
              :: (int, string) feature_impl"
  have h1: "buffer roads_tile = [?l]"
    by (simp add: roads_tile_def)
  have h2: "?fs ?l = Some [?f]"
    by (simp add: example_feature_def example_decode_def)
  have h3: "is_simple example_mapnik (get_geometry ?f)"
    by (simp add: example_mapnik_def)
  from simplicity_report [of roads_tile example_mapnik ?fs "[]" "[]" ?l ?f, OF ds] h1 h2 h3
  have r1: "reportGeometrySimplicitySync example_mapnik roads_tile [] = Inr (JSArray [])"
    by blast
  have e: "not_simple_entries example_mapnik ?fs (buffer loop_tile) =
             [\<lparr>layer = ''roads'', feature_id = 9\<rparr>]"
    by (simp add: not_simple_entries_def loop_tile_def example_mapnik_def example_feature_def
        example_decode_def)
  from simplicity_report [of loop_tile example_mapnik ?fs "[]" "[]", OF ds]
  have "reportGeometrySimplicitySync example_mapnik loop_tile [] =
          Inr (JSArray (map (\<lambda>e. JSObject [(''layer'', JSString (layer e)),
                                             (''featureId'', Number_New (feature_id e))])
                 (not_simple_entries example_mapnik ?fs (buffer loop_tile))))"
    by blast
  then have r2: "reportGeometrySimplicitySync example_mapnik loop_tile [] =
     Inr (JSArray [JSObject [(''layer'', JSString ''roads''), (''featureId'', JSNumber 9)]])"
    by (simp add: e Number_New_exact)
  have n: "\<not> is_simple example_mapnik (line_string [(0, 0), (10, 10), (0, 0)])"
    by (simp add: example_mapnik_def)
  from r1 r2 h3 n show ?thesis by simp
qed

section \<open>The validity report\<close>

lemma emplace_not_valid_Some:
  assumes "to_geojson env (feature\<lparr>get_geometry := g\<rparr>) = Some s"
  shows "emplace_not_valid env errors feature name msg g =
           Inr (errors @ [\<lparr>layer = name, feature_id = get_id feature, message = msg,
                           geojson = feature_collection s\<rparr>])"
  using assms by (simp add: emplace_not_valid_def)

lemma test_valid_entries:
  assumes "\<And>g. to_geojson env (feature\<lparr>get_geometry := g\<rparr>) = Some (gj g)"
  shows "test_valid env errors feature name g =
           Inr (errors @ not_valid_entries env feature name gj [g])"
  by (simp add: test_valid_def not_valid_entries_def not_valid_entry_def
      emplace_not_valid_Some [OF assms])

lemma test_parts_entries:
  assumes "\<And>g. to_geojson env (feature\<lparr>get_geometry := g\<rparr>) = Some (gj g)"
  shows "test_parts env errors feature name gs =
           Inr (errors @ not_valid_entries env feature name gj gs)"
proof (induction gs arbitrary: errors)
  case Nil
  show ?case by (simp add: not_valid_entries_def)
next
  case (Cons g gs)
  have "not_valid_entries env feature name gj (g # gs) =
          not_valid_entries env feature name gj [g] @ not_valid_entries env feature name gj gs"
    by (simp add: not_valid_entries_def)
  then show ?case
    by (simp add: test_valid_entries [OF assms] Cons.IH)
qed

lemma length_not_valid_entries_map:
  "length (not_valid_entries env feature name gj (map c xs)) =
     length (filter (\<lambda>x. \<not> fst (is_valid env (c x))) xs)"
  by (simp add: not_valid_entries_def filter_map comp_def)

text \<open>
  C7. For a multi-line-string and for a multi-polygon, whenever the GeoJSON of the
  feature can be generated (\<open>gj\<close>): with \<open>split_multi_features\<close> every part is tested
  by itself and the visitor appends one record per part that is not valid, as many as
  there are such parts; without it the geometry is tested as a whole and the visitor
  appends the one record of the whole geometry when that is not valid, so at most one.
\<close>

theorem split_multi_features_entries:
  assumes "\<And>g. to_geojson env (feature\<lparr>get_geometry := g\<rparr>) = Some (gj g)"
  shows "visitor_geom_valid env feature name True (multi_line_string lines) errors =
           Inr (errors @ not_valid_entries env feature name gj (map line_string lines)) \<and>
         visitor_geom_valid env feature name True (multi_polygon polys) errors =
           Inr (errors @ not_valid_entries env feature name gj (map polygon polys)) \<and>
         visitor_geom_valid env feature name False (multi_line_string lines) errors =
           Inr (errors @ not_valid_entries env feature name gj [multi_line_string lines]) \<and>
         visitor_geom_valid env feature name False (multi_polygon polys) errors =
           Inr (errors @ not_valid_entries env feature name gj [multi_polygon polys]) \<and>
         length (not_valid_entries env feature name gj (map line_string lines)) =
           length (filter (\<lambda>l. \<not> fst (is_valid env (line_string l))) lines) \<and>
         length (not_valid_entries env feature name gj (map polygon polys)) =
           length (filter (\<lambda>p. \<not> fst (is_valid env (polygon p))) polys) \<and>
         length (not_valid_entries env feature name gj [multi_line_string lines]) \<le> 1 \<and>
         length (not_valid_entries env feature name gj [multi_polygon polys]) \<le> 1"
proof -
  have one: "length (not_valid_entries env feature name gj [g]) \<le> 1" for g
    by (simp add: not_valid_entries_def)
  have v1: "visitor_geom_valid env feature name True (multi_line_string lines) errors =
           Inr (errors @ not_valid_entries env feature name gj (map line_string lines))"
    by (simp add: test_parts_entries [OF assms])
  have v2: "visitor_geom_valid env feature name True (multi_polygon polys) errors =
           Inr (errors @ not_valid_entries env feature name gj (map polygon polys))"
    by (simp add: test_parts_entries [OF assms])
  have v3: "visitor_geom_valid env feature name False (multi_line_string lines) errors =
           Inr (errors @ not_valid_entries env feature name gj [multi_line_string lines])"
    by (simp add: test_valid_entries [OF assms])
  have v4: "visitor_geom_valid env feature name False (multi_polygon polys) errors =
           Inr (errors @ not_valid_entries env feature name gj [multi_polygon polys])"
    by (simp add: test_valid_entries [OF assms])
  from v1 v2 v3 v4 length_not_valid_entries_map [of env feature name gj line_string lines]
    length_not_valid_entries_map [of env feature name gj polygon polys]
    one [of "multi_line_string lines"] one [of "multi_polygon polys"]
  show ?thesis by (intro conjI)
qed

theorem split_multi_features_entries_witness:
  "visitor_geom_valid example_mapnik \<lparr>get_id = 7, get_data = [], get_geometry = geometry_empty\<rparr>
     ''roads'' True (multi_line_string [[(0, 0)], [(0, 0), (1, 1)], []]) []
   = Inr [\<lparr>layer = ''roads'', feature_id = 7, message = ''Geometry has too few points'',
           geojson = feature_collection ''{}''\<rparr>,
          \<lparr>layer = ''roads'', feature_id = 7, message = ''Geometry has too few points'',
           geojson = feature_collection ''{}''\<rparr>] \<and>
   visitor_geom_valid example_mapnik \<lparr>get_id = 7, get_data = [], get_geometry = geometry_empty\<rparr>
     ''roads'' False (multi_line_string [[(0, 0)], [(0, 0), (1, 1)], []]) []
   = Inr [\<lparr>layer = ''roads'', feature_id = 7, message = ''Geometry has too few points'',
           geojson = feature_collection ''{}''\<rparr>]"
proof -
  have h: "to_geojson example_mapnik
             (\<lparr>get_id = 7, get_data = [], get_geometry = geometry_empty\<rparr>\<lparr>get_geometry := g\<rparr>)
           = Some ((\<lambda>g. ''{}'') g)" for g :: "int geometry"
    by (simp add: example_mapnik_def)
  show ?thesis
    using split_multi_features_entries [of example_mapnik
        "\<lparr>get_id = 7, get_data = [], get_geometry = geometry_empty\<rparr>" "\<lambda>g. ''{}''",
        OF h, of "''roads''" "[[(0, 0)], [(0, 0), (1, 1)], []]" "[]" "[]"]
    by (simp add: not_valid_entries_def not_valid_entry_def example_mapnik_def example_verdict_def)
qed

text \<open>
  The feature id of the records. Every record that the visitor appends carries the id
  of the feature the visitor was built with.
\<close>

lemma emplace_not_valid_id:
  "emplace_not_valid env errors feature name msg g = Inr errors' \<Longrightarrow>
     \<exists>new. errors' = errors @ new \<and> list_all (\<lambda>e. feature_id e = get_id feature) new"
  by (auto simp: emplace_not_valid_def split: option.splits)

lemma test_valid_id:
  "test_valid env errors feature name g = Inr errors' \<Longrightarrow>
     \<exists>new. errors' = errors @ new \<and> list_all (\<lambda>e. feature_id e = get_id feature) new"
  by (auto simp: test_valid_def dest: emplace_not_valid_id split: if_splits)

lemma test_parts_id:
  "test_parts env errors feature name gs = Inr errors' \<Longrightarrow>
     \<exists>new. errors' = errors @ new \<and> list_all (\<lambda>e. feature_id e = get_id feature) new"
proof (induction gs arbitrary: errors)
  case Nil
  then show ?case by simp
next
  case (Cons g gs)
  from Cons.prems obtain mid where
    m1: "test_valid env errors feature name g = Inr mid" and
    m2: "test_parts env mid feature name gs = Inr errors'"
    by (auto split: sum.splits)
  from test_valid_id [OF m1] obtain n1 where
    n1: "mid = errors @ n1" "list_all (\<lambda>e. feature_id e = get_id feature) n1" by blast
  from Cons.IH [OF m2] obtain n2 where
    n2: "errors' = mid @ n2" "list_all (\<lambda>e. feature_id e = get_id feature) n2" by blast
  from n1 n2 have "errors' = errors @ (n1 @ n2) \<and>
      list_all (\<lambda>e. feature_id e = get_id feature) (n1 @ n2)" by simp
  then show ?case by blast
qed

lemma visitor_geom_valid_id:
  "visitor_geom_valid env feature name split g errors = Inr errors' \<Longrightarrow>
     \<exists>new. errors' = errors @ new \<and> list_all (\<lambda>e. feature_id e = get_id feature) new"
  and visitor_geom_valid_collection_id:
  "visitor_geom_valid_collection env feature name split gs errors = Inr errors' \<Longrightarrow>
     \<exists>new. errors' = errors @ new \<and> list_all (\<lambda>e. feature_id e = get_id feature) new"
proof (induction env feature name split g errors and env feature name split gs errors
       arbitrary: errors' and errors'
       rule: visitor_geom_valid_visitor_geom_valid_collection.induct)
  case (10 env feature name split g gs errors)
  from "10.prems" obtain mid where
    m1: "visitor_geom_valid env feature name split g errors = Inr mid" and
    m2: "visitor_geom_valid_collection env feature name split gs mid = Inr errors'"
    by (auto split: sum.splits)
  from "10.IH"(1) [OF m1] obtain n1 where
    n1: "mid = errors @ n1" "list_all (\<lambda>e. feature_id e = get_id feature) n1" by blast
  from "10.IH"(2) [OF m1 m2] obtain n2 where
    n2: "errors' = mid @ n2" "list_all (\<lambda>e. feature_id e = get_id feature) n2" by blast
  from n1 n2 have "errors' = errors @ (n1 @ n2) \<and>
      list_all (\<lambda>e. feature_id e = get_id feature) (n1 @ n2)" by simp
  then show ?case by blast
qed (auto dest: test_valid_id test_parts_id split: if_splits)

text \<open>
  With \<open>lat_lon\<close> or \<open>web_merc\<close> the features come from the datasource and every record
  carries the id of one of them.
\<close>

lemma not_valid_loop_id:
  "not_valid_loop env name split lat_lon fs errors = Inr errors' \<Longrightarrow>
     \<exists>new. errors' = errors @ new \<and>
           list_all (\<lambda>e. feature_id e \<in> set (map get_id fs)) new"
proof (induction fs arbitrary: errors)
  case Nil
  then show ?case by simp
next
  case (Cons f fs)
  from Cons.prems obtain mid where
    m1: "visitor_geom_valid env f name split
           (if lat_lon then reproject_copy env (get_geometry f) else get_geometry f) errors
         = Inr mid" and
    m2: "not_valid_loop env name split lat_lon fs mid = Inr errors'"
    by (auto split: sum.splits)
  from visitor_geom_valid_id [OF m1] obtain n1 where
    n1: "mid = errors @ n1" "list_all (\<lambda>e. feature_id e = get_id f) n1" by blast
  from Cons.IH [OF m2] obtain n2 where
    n2: "errors' = mid @ n2" "list_all (\<lambda>e. feature_id e \<in> set (map get_id fs)) n2" by blast
  from n1 n2 have "errors' = errors @ (n1 @ n2) \<and>
      list_all (\<lambda>e. feature_id e \<in> set (map get_id (f # fs))) (n1 @ n2)"
    by (auto simp: list_all_iff)
  then show ?case by blast
qed

text \<open>Without them the feature that is visited is a fresh one of id 1.\<close>

lemma not_valid_feature_msg_id:
  "not_valid_feature_msg env name vers split feature_msg errors = Inr errors' \<Longrightarrow>
     \<exists>new. errors' = errors @ new \<and> list_all (\<lambda>e. feature_id e = 1) new"
  by (auto simp: not_valid_feature_msg_def Let_def dest!: visitor_geom_valid_id
      split: if_splits sum.splits)

lemma not_valid_feature_msgs_id:
  "not_valid_feature_msgs env name vers split ms errors = Inr errors' \<Longrightarrow>
     \<exists>new. errors' = errors @ new \<and> list_all (\<lambda>e. feature_id e = 1) new"
proof (induction ms arbitrary: errors)
  case Nil
  then show ?case by simp
next
  case (Cons m ms)
  from Cons.prems obtain mid where
    m1: "not_valid_feature_msg env name vers split m errors = Inr mid" and
    m2: "not_valid_feature_msgs env name vers split ms mid = Inr errors'"
    by (auto split: sum.splits)
  from not_valid_feature_msg_id [OF m1] obtain n1 where
    n1: "mid = errors @ n1" "list_all (\<lambda>e. feature_id e = 1) n1" by blast
  from Cons.IH [OF m2] obtain n2 where
    n2: "errors' = mid @ n2" "list_all (\<lambda>e. feature_id e = 1) n2" by blast
  from n1 n2 have "errors' = errors @ (n1 @ n2) \<and> list_all (\<lambda>e. feature_id e = 1) (n1 @ n2)"
    by simp
  then show ?case by blast
qed

lemma layer_not_valid_id:
  "layer_not_valid env layer_msg x y z errors split False False = Inr errors' \<Longrightarrow>
     \<exists>new. errors' = errors @ new \<and> list_all (\<lambda>e. feature_id e = 1) new"
  by (simp add: layer_not_valid_def Let_def not_valid_feature_msgs_id)

lemma not_valid_layers_id:
  "not_valid_layers env tile ls errors split False False = Inr errors' \<Longrightarrow>
     \<exists>new. errors' = errors @ new \<and> list_all (\<lambda>e. feature_id e = 1) new"
proof (induction ls arbitrary: errors)
  case Nil
  then show ?case by simp
next
  case (Cons l ls)
  from Cons.prems obtain mid where
    m1: "layer_not_valid env l (ucast (tile_x tile)) (ucast (tile_y tile)) (ucast (tile_z tile))
           errors split False False = Inr mid" and
    m2: "not_valid_layers env tile ls mid split False False = Inr errors'"
    by (auto split: sum.splits)
  from layer_not_valid_id [OF m1] obtain n1 where
    n1: "mid = errors @ n1" "list_all (\<lambda>e. feature_id e = 1) n1" by blast
  from Cons.IH [OF m2] obtain n2 where
    n2: "errors' = mid @ n2" "list_all (\<lambda>e. feature_id e = 1) n2" by blast
  from n1 n2 have "errors' = errors @ (n1 @ n2) \<and> list_all (\<lambda>e. feature_id e = 1) (n1 @ n2)"
    by simp
  then show ?case by blast
qed

text \<open>
  C5. The claim: every record of the validity check carries the id of the feature whose
  geometry is not valid, for every combination of the options. With neither \<open>lat_lon\<close>
  nor \<open>web_merc\<close> (the defaults) every record that the check appends has the feature id
  1, whatever id the feature has in the tile. The feature of id 7 of the layer
  \<open>parcels\<close> is reported under the id 1; with \<open>web_merc\<close> it is reported under 7.
\<close>

theorem not_valid_feature_id_is_one:
  "vector_tile_not_valid env tile errors split_multi_features False False = Inr errors' \<Longrightarrow>
     \<exists>new. errors' = errors @ new \<and> list_all (\<lambda>e. feature_id e = 1) new"
  by (simp add: vector_tile_not_valid_def not_valid_layers_id)

theorem not_valid_feature_id_is_one_witness:
  "vector_tile_not_valid example_mapnik parcels_tile [] False False False
     = Inr [\<lparr>layer = ''parcels'', feature_id = 1, message = ''Geometry has too few points'',
             geojson = feature_collection ''{}''\<rparr>] \<and>
   read_feature_id (read_feature
       [Feature_ID 7, Feature_TYPE 3, Feature_GEOMETRY [0, 0, 10, 10, 0, 0]]
       \<lparr>geom_itr = [], has_geom = False, has_geom_type = False,
        geom_type_enum = 0, read_feature_id = 0\<rparr>) = 7 \<and>
   vector_tile_not_valid example_mapnik parcels_tile [] False False True
     = Inr [\<lparr>layer = ''parcels'', feature_id = 7, message = ''Geometry has too few points'',
             geojson = feature_collection ''{}''\<rparr>] \<and>
   reportGeometryValiditySync example_mapnik parcels_tile []
     = Inr (JSArray [JSObject [(''layer'', JSString ''parcels''),
                               (''message'', JSString ''Geometry has too few points''),
                               (''featureId'', JSNumber 1),
                               (''geojson'', JSString (feature_collection ''{}''))]])"
proof -
  have h: "vector_tile_not_valid example_mapnik parcels_tile [] False False False
     = Inr [\<lparr>layer = ''parcels'', feature_id = 1, message = ''Geometry has too few points'',
             geojson = feature_collection ''{}''\<rparr>]"
    by (simp add: vector_tile_not_valid_def parcels_tile_def layer_not_valid_def
        parcels_layer_def not_valid_feature_msg_def
        example_mapnik_def example_decode_def example_verdict_def test_valid_def
        emplace_not_valid_def)
  have w: "vector_tile_not_valid example_mapnik parcels_tile [] False False True
     = Inr [\<lparr>layer = ''parcels'', feature_id = 7, message = ''Geometry has too few points'',
             geojson = feature_collection ''{}''\<rparr>]"
    by (simp add: vector_tile_not_valid_def parcels_tile_def layer_not_valid_def
        parcels_layer_def example_feature_def
        example_mapnik_def example_decode_def example_verdict_def test_valid_def
        emplace_not_valid_def)
  have r: "reportGeometryValiditySync example_mapnik parcels_tile []
     = Inr (JSArray [JSObject [(''layer'', JSString ''parcels''),
                               (''message'', JSString ''Geometry has too few points''),
                               (''featureId'', JSNumber 1),
                               (''geojson'', JSString (feature_collection ''{}''))]])"
    by (simp add: reportGeometryValiditySync_def run_not_valid_def h make_not_valid_array_def
        Number_New_exact)
  from not_valid_feature_id_is_one [OF h] h w r show ?thesis by simp
qed

section \<open>The pixel visitors\<close>

text \<open>
  C10. The pixel-access visitors are total on the null image: for all coordinates,
  \<open>visitor_get_pixel\<close> returns JavaScript \<open>undefined\<close> whatever \<open>get_pixel\<close> would
  read (it is not called), and \<open>visitor_set_pixel\<close> leaves the null image as it is.
\<close>

theorem pixel_visitors_null_image:
  "visitor_get_pixel get_pixel number_of x y image_null = Inr JSUndefined \<and>
   visitor_set_pixel set_pixel num x y image_null = image_null"
  by simp

end
